theory Spec2Isabelle
  imports Complex_Main
begin

section \<open>JavaScript values\<close>

text \<open>
  The relay in \<^verbatim>\<open>server.js\<close> moves JSON data between a browser and the upstream
  text-to-3D API. The values it handles are JavaScript values that came out of a JSON
  parser (\<^verbatim>\<open>express.json()\<close> for \<^verbatim>\<open>req.body\<close>, \<^verbatim>\<open>response.json()\<close> for upstream
  bodies), plus \<^verbatim>\<open>undefined\<close> for a property that is not there.

  A JavaScript number is a double: a finite value (a rational; the sign of zero plays no
  role below), an infinity (\<^verbatim>\<open>JSON.parse("1e999")\<close>), or NaN. A JavaScript string is
  written as the bytes of its UTF-8 encoding, one \<open>char\<close> for each byte; the handlers
  compare strings, test them for emptiness and join them, and \<^verbatim>\<open>res.setHeader\<close> looks
  at their characters.
\<close>

datatype number = Finite rat | PosInfinity | NegInfinity | NaN

datatype json =
    JUndefined
  | JNull
  | JBool bool
  | JNum number
  | JStr string
  | JArr "json list"
  | JObj "(string \<times> json) list"

text \<open>
  \<^verbatim>\<open>ToBoolean\<close>: the falsy values are \<^verbatim>\<open>undefined\<close>, \<^verbatim>\<open>null\<close>, \<^verbatim>\<open>false\<close>,
  zero, NaN and the empty string; every object and array is truthy.
\<close>

fun truthy :: "json \<Rightarrow> bool" where
  "truthy JUndefined = False"
| "truthy JNull = False"
| "truthy (JBool b) = b"
| "truthy (JNum n) = (n \<noteq> Finite 0 \<and> n \<noteq> NaN)"
| "truthy (JStr s) = (s \<noteq> [])"
| "truthy (JArr xs) = True"
| "truthy (JObj kvs) = True"

text \<open>\<^verbatim>\<open>a || b\<close> is \<^verbatim>\<open>a\<close> when \<^verbatim>\<open>a\<close> is truthy and \<^verbatim>\<open>b\<close> otherwise.\<close>

definition js_or :: "json \<Rightarrow> json \<Rightarrow> json" where
  "js_or a b = (if truthy a then a else b)"

text \<open>
  \<^verbatim>\<open>x === lit\<close> for a primitive literal \<^verbatim>\<open>lit\<close> (the source compares with \<^verbatim>\<open>false\<close>,
  \<^verbatim>\<open>true\<close> and \<^verbatim>\<open>'SUCCEEDED'\<close> only): same type and same value. An array or an object
  is never strictly equal to a primitive, and NaN is equal to nothing.
\<close>

fun strict_eq :: "json \<Rightarrow> json \<Rightarrow> bool" where
  "strict_eq JUndefined JUndefined = True"
| "strict_eq JNull JNull = True"
| "strict_eq (JBool a) (JBool b) = (a = b)"
| "strict_eq (JNum a) (JNum b) = (a = b \<and> a \<noteq> NaN)"
| "strict_eq (JStr a) (JStr b) = (a = b)"
| "strict_eq _ _ = False"

text \<open>
  Errors that the handlers' \<^verbatim>\<open>try\<close> blocks can catch: a rejected \<^verbatim>\<open>fetch\<close> (with its
  message), the TypeError of a property read on \<^verbatim>\<open>null\<close> or \<^verbatim>\<open>undefined\<close>, the
  rejection of \<^verbatim>\<open>response.json()\<close> on a body that is not JSON, and the error of
  \<^verbatim>\<open>res.setHeader\<close> on a value with a character that a header cannot hold.
\<close>

datatype js_error = FetchError string | TypeError | InvalidJson | InvalidChar

text \<open>
  Reading a property, as in \<^verbatim>\<open>const { prompt } = req.body\<close> or \<^verbatim>\<open>taskData.status\<close>.
  On \<^verbatim>\<open>undefined\<close> and \<^verbatim>\<open>null\<close> the read throws a TypeError. On an object it is the
  member of that name, or \<^verbatim>\<open>undefined\<close>; \<open>JObj\<close> lists the members of an object, each
  name once, and a name is looked up from the front. The names read by the source (\<^verbatim>\<open>prompt\<close>,
  \<^verbatim>\<open>art_style\<close>, \<^verbatim>\<open>should_remesh\<close>, \<^verbatim>\<open>preview_task_id\<close>, \<^verbatim>\<open>enable_pbr\<close>,
  \<^verbatim>\<open>status\<close>, \<^verbatim>\<open>model_urls\<close>, \<^verbatim>\<open>glb\<close>) are not properties of any built-in
  prototype, so on a boolean, number, string or array the read gives \<^verbatim>\<open>undefined\<close>.
\<close>

fun get_prop :: "json \<Rightarrow> string \<Rightarrow> js_error + json" where
  "get_prop JUndefined k = Inl TypeError"
| "get_prop JNull k = Inl TypeError"
| "get_prop (JObj kvs) k = (case map_of kvs k of None \<Rightarrow> Inr JUndefined | Some v \<Rightarrow> Inr v)"
| "get_prop v k = Inr JUndefined"

text \<open>Optional chaining \<^verbatim>\<open>a?.k\<close>: \<^verbatim>\<open>undefined\<close> when \<^verbatim>\<open>a\<close> is \<^verbatim>\<open>null\<close> or \<^verbatim>\<open>undefined\<close>.\<close>

definition get_prop_opt :: "json \<Rightarrow> string \<Rightarrow> js_error + json" where
  "get_prop_opt a k = (if a = JUndefined \<or> a = JNull then Inr JUndefined else get_prop a k)"

section \<open>The upstream and the runtime, as the handlers see them\<close>

text \<open>
  What \<^verbatim>\<open>fetch\<close> resolves to: the HTTP status and the body. The body is read as text
  by \<^verbatim>\<open>response.text()\<close>, parsed by \<^verbatim>\<open>response.json()\<close>, or piped as bytes from
  \<^verbatim>\<open>response.body\<close>. \<^verbatim>\<open>response.ok\<close> is a status from 200 to 299.
\<close>

record fetch_response =
  status :: nat
  content :: string

definition ok :: "fetch_response \<Rightarrow> bool" where
  "ok r = (200 \<le> status r \<and> status r < 300)"

datatype fetch_result = Resolves fetch_response | Rejects string

text \<open>A call of \<^verbatim>\<open>fetch(url, init)\<close>; the binary download is \<^verbatim>\<open>fetch(glbUrl)\<close> with
  no second argument, and its first argument is whatever value the task object held.\<close>

record init =
  "method" :: string
  headers :: "(string \<times> string) list"
  body :: "string option"

datatype call = Fetch json "init option"

text \<open>
  The environment of a request. \<open>fetch\<close> is the answer of the network to each call.
  \<open>MESHY_API_KEY\<close> is the variable \<^verbatim>\<open>process.env.MESHY_API_KEY\<close>, a string or not set.
  \<open>JSON_parse\<close> and \<open>JSON_stringify\<close> are the two functions of the JavaScript runtime:
  the value that \<^verbatim>\<open>response.json()\<close> gives for a body (\<open>None\<close> when it rejects the
  body), and the text that \<^verbatim>\<open>JSON.stringify\<close> writes for a value. The handlers are
  defined for every such pair of functions, so nothing proved of them depends on how
  JavaScript reads or writes a number, an escape or a key. \<open>engine_message\<close> is the
  \<^verbatim>\<open>message\<close> text of the errors that the engine and the libraries raise themselves.
\<close>

record env =
  fetch :: "call \<Rightarrow> fetch_result"
  MESHY_API_KEY :: "string option"
  JSON_parse :: "string \<Rightarrow> json option"
  JSON_stringify :: "json \<Rightarrow> string"
  engine_message :: "js_error \<Rightarrow> string"

definition message :: "env \<Rightarrow> js_error \<Rightarrow> string" where
  "message env e = (case e of FetchError m \<Rightarrow> m | _ \<Rightarrow> engine_message env e)"

section \<open>The response\<close>

text \<open>
  The Express response object \<^verbatim>\<open>res\<close>: status 200 and no header of the handler's own
  at the start. The model records what the handler passes to \<^verbatim>\<open>res.status\<close>,
  \<^verbatim>\<open>res.setHeader\<close>, \<^verbatim>\<open>res.json\<close>, \<^verbatim>\<open>res.send\<close> and \<^verbatim>\<open>pipe\<close>: the response is the
  state of \<^verbatim>\<open>res\<close> and what was sent, \<open>Json v\<close> for \<^verbatim>\<open>res.json(v)\<close> and \<open>Stream bs\<close>
  for bytes piped through. \<open>wire\<close> gives the bytes of the body: \<^verbatim>\<open>res.json(v)\<close> sends
  \<^verbatim>\<open>JSON.stringify(v)\<close>. Headers that Express adds by itself are not recorded.
  \<^verbatim>\<open>res.send\<close> of an object is \<^verbatim>\<open>res.json\<close>.
\<close>

record res =
  statusCode :: nat
  header_fields :: "(string \<times> string) list"

datatype payload = Json json | Stream string

type_synonym response = "res \<times> payload"

fun wire :: "env \<Rightarrow> payload \<Rightarrow> string" where
  "wire env (Json v) = JSON_stringify env v"
| "wire env (Stream bs) = bs"

definition new_res :: res where
  "new_res = \<lparr>statusCode = 200, header_fields = []\<rparr>"

definition res_status :: "nat \<Rightarrow> res \<Rightarrow> res" where
  "res_status code r = r\<lparr>statusCode := code\<rparr>"

text \<open>
  \<^verbatim>\<open>res.setHeader(name, value)\<close> is Node's: it throws when the value has a character
  outside tab, U+0020..U+007E and U+0080..U+00FF, and stores the header otherwise. In
  UTF-8 the characters U+0080..U+00FF are the two-byte sequences with first byte C2 or
  C3, and every character above U+00FF has a byte of C4 or more, so the allowed bytes
  are 09, 20..7E and 80..C3. The two names the source passes are legal header names.
\<close>

definition header_char_ok :: "char \<Rightarrow> bool" where
  "header_char_ok c =
     ((of_char c :: nat) = 9 \<or> (32 \<le> (of_char c :: nat) \<and> (of_char c :: nat) \<le> 126)
      \<or> (128 \<le> (of_char c :: nat) \<and> (of_char c :: nat) \<le> 195))"

definition res_setHeader :: "string \<Rightarrow> string \<Rightarrow> res \<Rightarrow> js_error + res" where
  "res_setHeader name v r =
     (if \<not> list_all header_char_ok v then Inl InvalidChar
      else Inr (r\<lparr>header_fields :=
                   filter (\<lambda>(k, _). k \<noteq> name) (header_fields r) @ [(name, v)]\<rparr>))"

definition res_json :: "json \<Rightarrow> res \<Rightarrow> response" where
  "res_json v r = (r, Json v)"

definition res_send :: "json \<Rightarrow> res \<Rightarrow> response" where
  "res_send v r = res_json v r"

definition pipe :: "string \<Rightarrow> res \<Rightarrow> response" where
  "pipe bs r = (r, Stream bs)"

text \<open>The \<^verbatim>\<open>catch\<close> block of every handler:
  \<^verbatim>\<open>res.status(500).json({ error: err.message })\<close>, on \<^verbatim>\<open>res\<close> as it is when the error
  is thrown.\<close>

definition caught :: "env \<Rightarrow> res \<Rightarrow> js_error \<Rightarrow> response" where
  "caught env r e = res_json (JObj [(''error'', JStr (message env e))]) (res_status 500 r)"

section \<open>The four handlers\<close>

text \<open>The template \<^verbatim>\<open>`Bearer ${process.env.MESHY_API_KEY}`\<close>; an unset variable prints
  as \<^verbatim>\<open>undefined\<close>.\<close>

definition authorization :: "env \<Rightarrow> string" where
  "authorization env =
     ''Bearer '' @ (case MESHY_API_KEY env of None \<Rightarrow> ''undefined'' | Some k \<Rightarrow> k)"

text \<open>
  A handler's result is the list of the calls it made, in order, and the response it
  sent. Writes to the console are not part of the result.
\<close>

type_synonym result = "call list \<times> response"

definition preview :: "env \<Rightarrow> json \<Rightarrow> result" where
  "preview env reqBody =
     (case get_prop reqBody ''prompt'' of Inl e \<Rightarrow> ([], caught env new_res e) | Inr prompt \<Rightarrow>
      case get_prop reqBody ''art_style'' of Inl e \<Rightarrow> ([], caught env new_res e) | Inr art_style \<Rightarrow>
      case get_prop reqBody ''should_remesh'' of Inl e \<Rightarrow> ([], caught env new_res e) | Inr should_remesh \<Rightarrow>
      let previewBody = JObj
            [(''mode'', JStr ''preview''),
             (''prompt'', js_or prompt (JStr ''3D object'')),
             (''art_style'', js_or art_style (JStr ''realistic'')),
             (''should_remesh'', JBool (\<not> strict_eq should_remesh (JBool False)))];
          c = Fetch (JStr ''https://api.meshy.ai/openapi/v2/text-to-3d'')
                (Some \<lparr>method = ''POST'',
                       headers = [(''Content-Type'', ''application/json''),
                                  (''Authorization'', authorization env)],
                       body = Some (JSON_stringify env previewBody)\<rparr>)
      in case fetch env c of
           Rejects m \<Rightarrow> ([c], caught env new_res (FetchError m))
         | Resolves response \<Rightarrow>
             if \<not> ok response then
               ([c], res_json (JObj [(''error'', JStr (content response))])
                       (res_status (status response) new_res))
             else case JSON_parse env (content response) of
                    None \<Rightarrow> ([c], caught env new_res InvalidJson)
                  | Some data \<Rightarrow> ([c], res_json data new_res))"

definition refine :: "env \<Rightarrow> json \<Rightarrow> result" where
  "refine env reqBody =
     (case get_prop reqBody ''preview_task_id'' of Inl e \<Rightarrow> ([], caught env new_res e) | Inr preview_task_id \<Rightarrow>
      case get_prop reqBody ''enable_pbr'' of Inl e \<Rightarrow> ([], caught env new_res e) | Inr enable_pbr \<Rightarrow>
      if \<not> truthy preview_task_id then
        ([], res_json (JObj [(''error'', JStr ''preview_task_id is required.'')])
               (res_status 400 new_res))
      else
      let refineBody = JObj
            [(''mode'', JStr ''refine''),
             (''preview_task_id'', preview_task_id),
             (''enable_pbr'', JBool (strict_eq enable_pbr (JBool True)))];
          c = Fetch (JStr ''https://api.meshy.ai/openapi/v2/text-to-3d'')
                (Some \<lparr>method = ''POST'',
                       headers = [(''Content-Type'', ''application/json''),
                                  (''Authorization'', authorization env)],
                       body = Some (JSON_stringify env refineBody)\<rparr>)
      in case fetch env c of
           Rejects m \<Rightarrow> ([c], caught env new_res (FetchError m))
         | Resolves response \<Rightarrow>
             if \<not> ok response then
               ([c], res_json (JObj [(''error'', JStr (content response))])
                       (res_status (status response) new_res))
             else case JSON_parse env (content response) of
                    None \<Rightarrow> ([c], caught env new_res InvalidJson)
                  | Some data \<Rightarrow> ([c], res_json data new_res))"

definition task :: "env \<Rightarrow> string \<Rightarrow> result" where
  "task env taskId =
     (let c = Fetch (JStr (''https://api.meshy.ai/openapi/v2/text-to-3d/'' @ taskId))
                (Some \<lparr>method = ''GET'',
                       headers = [(''Authorization'', authorization env)],
                       body = None\<rparr>)
      in case fetch env c of
           Rejects m \<Rightarrow> ([c], caught env new_res (FetchError m))
         | Resolves response \<Rightarrow>
             if \<not> ok response then
               ([c], res_json (JObj [(''error'', JStr (content response))])
                       (res_status (status response) new_res))
             else case JSON_parse env (content response) of
                    None \<Rightarrow> ([c], caught env new_res InvalidJson)
                  | Some taskData \<Rightarrow> ([c], res_json taskData new_res))"

definition download :: "env \<Rightarrow> string \<Rightarrow> result" where
  "download env taskId =
     (let c = Fetch (JStr (''https://api.meshy.ai/openapi/v2/text-to-3d/'' @ taskId))
                (Some \<lparr>method = ''GET'',
                       headers = [(''Authorization'', authorization env)],
                       body = None\<rparr>)
      in case fetch env c of
           Rejects m \<Rightarrow> ([c], caught env new_res (FetchError m))
         | Resolves response \<Rightarrow>
             if \<not> ok response then
               ([c], res_send (JObj [(''error'', JStr (content response))])
                       (res_status (status response) new_res))
             else case JSON_parse env (content response) of
               None \<Rightarrow> ([c], caught env new_res InvalidJson)
             | Some taskData \<Rightarrow>
                 case get_prop taskData ''status'' of Inl e \<Rightarrow> ([c], caught env new_res e) | Inr st \<Rightarrow>
                 if \<not> strict_eq st (JStr ''SUCCEEDED'') then
                   ([c], res_json (JObj [(''error'', JStr ''Task is not complete or has failed.'')])
                           (res_status 400 new_res))
                 else
                 case get_prop taskData ''model_urls'' of Inl e \<Rightarrow> ([c], caught env new_res e) | Inr model_urls \<Rightarrow>
                 case get_prop_opt model_urls ''glb'' of Inl e \<Rightarrow> ([c], caught env new_res e) | Inr glbUrl \<Rightarrow>
                 if \<not> truthy glbUrl then
                   ([c], res_json (JObj [(''error'', JStr ''GLB URL not found.'')])
                           (res_status 404 new_res))
                 else
                 let c2 = Fetch glbUrl None
                 in case fetch env c2 of
                      Rejects m \<Rightarrow> ([c, c2], caught env new_res (FetchError m))
                    | Resolves modelResponse \<Rightarrow>
                        if \<not> ok modelResponse then
                          ([c, c2], res_json (JObj [(''error'', JStr ''Failed to download GLB file.'')])
                                      (res_status 500 new_res))
                        else
                        case res_setHeader ''Content-Type'' ''model/gltf-binary'' new_res of
                          Inl e \<Rightarrow> ([c, c2], caught env new_res e)
                        | Inr res1 \<Rightarrow>
                        case res_setHeader ''Content-Disposition''
                               (''attachment; filename=\"'' @ taskId @ ''.glb\"'') res1 of
                          Inl e \<Rightarrow> ([c, c2], caught env res1 e)
                        | Inr res2 \<Rightarrow> ([c, c2], pipe (content modelResponse) res2))"

section \<open>A runtime for the examples\<close>

text \<open>
  The worked examples need one environment, and with it one pair of JSON functions. They
  are computed here on a fragment of JSON: the four whitespace characters, objects,
  arrays, \<^verbatim>\<open>true\<close>, \<^verbatim>\<open>false\<close>, \<^verbatim>\<open>null\<close>, integers of magnitude up to \<open>2\<^sup>5\<^sup>3\<close>
  without fraction or exponent, and strings of printable ASCII characters without
  escapes. On that fragment \<open>parse_fragment\<close> and \<open>stringify_fragment\<close> compute what
  \<^verbatim>\<open>JSON.parse\<close> and \<^verbatim>\<open>JSON.stringify\<close> compute; outside it they answer \<open>Unsupported\<close>
  and \<open>None\<close>. \<open>Malformed\<close> is only answered for text that \<^verbatim>\<open>JSON.parse\<close> rejects.
  Every example below stays inside the fragment. The handlers do not use these
  functions: they take their runtime from the environment.
\<close>

datatype 'a parsed = Parsed 'a | Malformed | Unsupported

datatype token =
    TLBrace | TRBrace | TLBrack | TRBrack | TColon | TComma
  | TStr string | TNum int | TTrue | TFalse | TNull

definition is_ws :: "char \<Rightarrow> bool" where
  "is_ws c = (c = CHR '' '' \<or> c = CHR 0x09 \<or> c = CHR 0x0A \<or> c = CHR 0x0D)"

definition is_digit :: "char \<Rightarrow> bool" where
  "is_digit c = (48 \<le> (of_char c :: int) \<and> (of_char c :: int) \<le> 57)"

text \<open>A character that stands for itself inside a JSON string: printable ASCII other
  than the double quote (0x22) and the backslash (0x5C).\<close>

definition is_plain :: "char \<Rightarrow> bool" where
  "is_plain c = (32 \<le> (of_char c :: int) \<and> (of_char c :: int) \<le> 126
                 \<and> c \<noteq> CHR 0x22 \<and> c \<noteq> CHR 0x5C)"

definition digit_val :: "char \<Rightarrow> int" where
  "digit_val c = of_char c - 48"

definition int_of_digits :: "string \<Rightarrow> int" where
  "int_of_digits ds = foldl (\<lambda>a d. 10 * a + digit_val d) 0 ds"

definition max_exact :: int where
  "max_exact = 9007199254740992"

definition cons_tok :: "token \<Rightarrow> token list parsed \<Rightarrow> token list parsed" where
  "cons_tok t r = (case r of Parsed ts \<Rightarrow> Parsed (t # ts) | Malformed \<Rightarrow> Malformed
                   | Unsupported \<Rightarrow> Unsupported)"

text \<open>
  The integer literal at the head of \<open>cs\<close> (after an optional minus sign): its digits are
  taken off, a leading zero before another digit is malformed, and a fraction, an
  exponent, a value beyond \<open>2\<^sup>5\<^sup>3\<close> or a negative zero is outside the fragment. The
  result is the token and the text after the digits.
\<close>

definition lex_number :: "bool \<Rightarrow> string \<Rightarrow> (token \<times> string) parsed" where
  "lex_number neg cs =
     (let ds = takeWhile is_digit cs; rest = dropWhile is_digit cs; n = int_of_digits ds
      in if ds = [] then Malformed
         else if hd ds = CHR ''0'' \<and> tl ds \<noteq> [] then Malformed
         else if rest \<noteq> [] \<and> (hd rest = CHR ''.'' \<or> hd rest = CHR ''e'' \<or> hd rest = CHR ''E'')
           then Unsupported
         else if max_exact < n \<or> (neg \<and> n = 0) then Unsupported
         else Parsed (TNum (if neg then - n else n), rest))"

lemma lex_number_rest:
  "lex_number neg cs = Parsed (t, rest) \<Longrightarrow> rest = dropWhile is_digit cs"
  by (auto simp: lex_number_def Let_def split: if_splits)

lemma dropWhile_Cons_shorter: "dropWhile P cs = d # rest \<Longrightarrow> length rest < length cs"
  using length_dropWhile_le [of P cs] by simp

function tokenize :: "string \<Rightarrow> token list parsed" where
  "tokenize [] = Parsed []"
| "tokenize (c # cs) =
     (if is_ws c then tokenize cs
      else if c = CHR ''{'' then cons_tok TLBrace (tokenize cs)
      else if c = CHR ''}'' then cons_tok TRBrace (tokenize cs)
      else if c = CHR ''['' then cons_tok TLBrack (tokenize cs)
      else if c = CHR '']'' then cons_tok TRBrack (tokenize cs)
      else if c = CHR '':'' then cons_tok TColon (tokenize cs)
      else if c = CHR '','' then cons_tok TComma (tokenize cs)
      else if c = CHR 0x22 then
        (case dropWhile is_plain cs of
           [] \<Rightarrow> Malformed
         | d # rest \<Rightarrow>
             if d = CHR 0x22 then cons_tok (TStr (takeWhile is_plain cs)) (tokenize rest)
             else Unsupported)
      else if c = CHR ''-'' then
        (case lex_number True cs of
           Parsed (t, rest) \<Rightarrow> cons_tok t (tokenize rest)
         | Malformed \<Rightarrow> Malformed | Unsupported \<Rightarrow> Unsupported)
      else if is_digit c then
        (case lex_number False (c # cs) of
           Parsed (t, rest) \<Rightarrow> cons_tok t (tokenize rest)
         | Malformed \<Rightarrow> Malformed | Unsupported \<Rightarrow> Unsupported)
      else if take 4 (c # cs) = ''true'' then cons_tok TTrue (tokenize (drop 3 cs))
      else if take 5 (c # cs) = ''false'' then cons_tok TFalse (tokenize (drop 4 cs))
      else if take 4 (c # cs) = ''null'' then cons_tok TNull (tokenize (drop 3 cs))
      else if 128 \<le> (of_char c :: int) then Unsupported
      else Malformed)"
  by pat_completeness auto
termination
  by (relation "measure length")
     (auto simp: le_imp_less_Suc length_dropWhile_le
           dest: dropWhile_Cons_shorter lex_number_rest)

text \<open>
  The grammar is checked by a machine with an explicit stack of the containers that are
  open: an array with its elements so far, an object with its members so far, or an
  object whose next member has its key read and its value pending.
\<close>

datatype frame =
    FArr "json list"
  | FObj "(string \<times> json) list"
  | FMember "(string \<times> json) list" string

datatype expect =
    WantValue | WantValueOrClose | WantKey | WantKeyOrClose | WantColon | AfterValue
  | Done json

text \<open>A finished value goes into the innermost open container, or is the result.\<close>

fun deliver :: "json \<Rightarrow> frame list \<Rightarrow> (frame list \<times> expect) parsed" where
  "deliver v [] = Parsed ([], Done v)"
| "deliver v (FArr xs # st) = Parsed (FArr (xs @ [v]) # st, AfterValue)"
| "deliver v (FMember kvs k # st) = Parsed (FObj (kvs @ [(k, v)]) # st, AfterValue)"
| "deliver v (FObj kvs # st) = Unsupported"

text \<open>
  Member names the fragment leaves out: a name already used in the object (the later
  value would replace the earlier one), a name of digits only (JavaScript moves
  integer-like keys to the front) and \<^verbatim>\<open>__proto__\<close>.
\<close>

definition plain_key :: "string \<Rightarrow> (string \<times> json) list \<Rightarrow> bool" where
  "plain_key k kvs = (k \<notin> set (map fst kvs) \<and> \<not> (k \<noteq> [] \<and> list_all is_digit k)
                      \<and> k \<noteq> ''__proto__'')"

fun value_token :: "frame list \<Rightarrow> token \<Rightarrow> (frame list \<times> expect) parsed" where
  "value_token st (TStr s) = deliver (JStr s) st"
| "value_token st (TNum n) = deliver (JNum (Finite (of_int n))) st"
| "value_token st TTrue = deliver (JBool True) st"
| "value_token st TFalse = deliver (JBool False) st"
| "value_token st TNull = deliver JNull st"
| "value_token st TLBrack = Parsed (FArr [] # st, WantValueOrClose)"
| "value_token st TLBrace = Parsed (FObj [] # st, WantKeyOrClose)"
| "value_token st t = Malformed"

fun key_token :: "frame list \<Rightarrow> token \<Rightarrow> (frame list \<times> expect) parsed" where
  "key_token (FObj kvs # st) (TStr k) =
     (if plain_key k kvs then Parsed (FMember kvs k # st, WantColon) else Unsupported)"
| "key_token st (TStr k) = Unsupported"
| "key_token st t = Malformed"

fun close_container :: "frame list \<Rightarrow> token \<Rightarrow> (frame list \<times> expect) parsed" where
  "close_container (FArr xs # st) t =
     (if t = TComma then Parsed (FArr xs # st, WantValue)
      else if t = TRBrack then deliver (JArr xs) st
      else Malformed)"
| "close_container (FObj kvs # st) t =
     (if t = TComma then Parsed (FObj kvs # st, WantKey)
      else if t = TRBrace then deliver (JObj kvs) st
      else Malformed)"
| "close_container st t = Unsupported"

fun step :: "frame list \<Rightarrow> expect \<Rightarrow> token \<Rightarrow> (frame list \<times> expect) parsed" where
  "step st WantValue t = value_token st t"
| "step st WantValueOrClose t =
     (if t = TRBrack then close_container st t else value_token st t)"
| "step st WantKey t = key_token st t"
| "step st WantKeyOrClose t =
     (if t = TRBrace then close_container st t else key_token st t)"
| "step st WantColon t = (if t = TColon then Parsed (st, WantValue) else Malformed)"
| "step st AfterValue t = close_container st t"
| "step st (Done v) t = Malformed"

fun run :: "frame list \<Rightarrow> expect \<Rightarrow> token list \<Rightarrow> json parsed" where
  "run st (Done v) [] = Parsed v"
| "run st e [] = Malformed"
| "run st e (t # ts) =
     (case step st e t of
        Parsed (st', e') \<Rightarrow> run st' e' ts
      | Malformed \<Rightarrow> Malformed
      | Unsupported \<Rightarrow> Unsupported)"

definition parse_fragment :: "string \<Rightarrow> json parsed" where
  "parse_fragment text =
     (case tokenize text of
        Parsed ts \<Rightarrow> run [] WantValue ts
      | Malformed \<Rightarrow> Malformed
      | Unsupported \<Rightarrow> Unsupported)"

text \<open>\<^verbatim>\<open>JSON.stringify\<close> on the same fragment: no whitespace, members in order.\<close>

function digits_of :: "int \<Rightarrow> string" where
  "digits_of n =
     (if n < 10 then [char_of (48 + n)]
      else digits_of (n div 10) @ [char_of (48 + n mod 10)])"
  by pat_completeness auto
termination
  by (relation "measure nat") auto

declare digits_of.simps [simp del]

definition stringify_int :: "int \<Rightarrow> string" where
  "stringify_int i = (if i < 0 then CHR ''-'' # digits_of (- i) else digits_of i)"

definition quote :: "string \<Rightarrow> string option" where
  "quote s = (if list_all is_plain s then Some ([CHR 0x22] @ s @ [CHR 0x22]) else None)"

fun join_comma :: "string list \<Rightarrow> string" where
  "join_comma [] = []"
| "join_comma [x] = x"
| "join_comma (x # y # ys) = x @ '','' @ join_comma (y # ys)"

fun all_plain_keys :: "(string \<times> json) list \<Rightarrow> bool" where
  "all_plain_keys [] = True"
| "all_plain_keys ((k, v) # kvs) = (plain_key k kvs \<and> all_plain_keys kvs)"

fun stringify_fragment :: "json \<Rightarrow> string option" where
  "stringify_fragment JUndefined = None"
| "stringify_fragment JNull = Some ''null''"
| "stringify_fragment (JBool b) = Some (if b then ''true'' else ''false'')"
| "stringify_fragment (JNum (Finite r)) =
     (if r = of_int \<lfloor>r\<rfloor> \<and> \<bar>r\<bar> \<le> of_int max_exact then Some (stringify_int \<lfloor>r\<rfloor>) else None)"
| "stringify_fragment (JNum n) = None"
| "stringify_fragment (JStr s) = quote s"
| "stringify_fragment (JArr xs) =
     (case those (map stringify_fragment xs) of
        None \<Rightarrow> None
      | Some ss \<Rightarrow> Some (''['' @ join_comma ss @ '']''))"
| "stringify_fragment (JObj kvs) =
     (if \<not> all_plain_keys kvs then None
      else case those (map (\<lambda>(k, v).
                  case (quote k, stringify_fragment v) of
                    (Some qk, Some sv) \<Rightarrow> Some (qk @ '':'' @ sv)
                  | _ \<Rightarrow> None) kvs) of
        None \<Rightarrow> None
      | Some ms \<Rightarrow> Some (''{'' @ join_comma ms @ ''}''))"

text \<open>
  The environment of the examples: \<open>f\<close> is the network's answer to each call, and the
  runtime is the one above (outside the fragment it rejects and writes nothing, which
  no example reaches).
\<close>

definition example_env :: "(call \<Rightarrow> fetch_result) \<Rightarrow> env" where
  "example_env f =
     \<lparr>fetch = f, MESHY_API_KEY = Some ''secret'',
      JSON_parse = (\<lambda>s. case parse_fragment s of Parsed v \<Rightarrow> Some v | _ \<Rightarrow> None),
      JSON_stringify = (\<lambda>v. case stringify_fragment v of Some s \<Rightarrow> s | None \<Rightarrow> []),
      engine_message = (\<lambda>e. ''engine error'')\<rparr>"

section \<open>Basic facts\<close>

lemmas res_defs =
  res_json_def res_send_def res_status_def new_res_def caught_def pipe_def message_def

lemmas fragment_defs =
  example_env_def parse_fragment_def is_ws_def is_plain_def is_digit_def cons_tok_def
  plain_key_def quote_def max_exact_def stringify_int_def lex_number_def int_of_digits_def
  digit_val_def digits_of.simps char_of_def authorization_def

lemma strict_eq_JStr: "strict_eq x (JStr s) = (x = JStr s)"
  by (cases x) auto

lemma strict_eq_JBool: "strict_eq x (JBool b) = (x = JBool b)"
  by (cases x) auto

lemma get_prop_total: "get_prop b k = Inr v \<Longrightarrow> \<exists>v'. get_prop b k' = Inr v'"
  by (cases b) (auto split: option.splits)

lemma get_prop_throws: "get_prop b k = Inl x \<Longrightarrow> get_prop b k' = Inl TypeError"
  by (cases b) (auto split: option.splits)

lemma setHeader_content_type:
  "res_setHeader ''Content-Type'' ''model/gltf-binary'' \<lparr>statusCode = 200, header_fields = []\<rparr>
     = Inr \<lparr>statusCode = 200, header_fields = [(''Content-Type'', ''model/gltf-binary'')]\<rparr>"
  by (simp add: res_setHeader_def header_char_ok_def)

lemma setHeader_content_disposition:
  "res_setHeader ''Content-Disposition'' (''attachment; filename=\"'' @ taskId @ ''.glb\"'')
       \<lparr>statusCode = 200, header_fields = [(''Content-Type'', ''model/gltf-binary'')]\<rparr>
     = (if list_all header_char_ok taskId
        then Inr \<lparr>statusCode = 200,
                   header_fields =
                     [(''Content-Type'', ''model/gltf-binary''),
                      (''Content-Disposition'',
                       ''attachment; filename=\"'' @ taskId @ ''.glb\"'')]\<rparr>
        else Inl InvalidChar)"
  by (simp add: res_setHeader_def header_char_ok_def)

section \<open>The calls of the create handlers\<close>

lemma preview_calls:
  assumes "get_prop reqBody ''prompt'' = Inr p" and "get_prop reqBody ''art_style'' = Inr a"
    and "get_prop reqBody ''should_remesh'' = Inr s"
  shows "fst (preview env reqBody) =
           [Fetch (JStr ''https://api.meshy.ai/openapi/v2/text-to-3d'')
              (Some \<lparr>method = ''POST'',
                     headers = [(''Content-Type'', ''application/json''),
                                (''Authorization'', authorization env)],
                     body = Some (JSON_stringify env
                       (JObj [(''mode'', JStr ''preview''),
                              (''prompt'', js_or p (JStr ''3D object'')),
                              (''art_style'', js_or a (JStr ''realistic'')),
                              (''should_remesh'', JBool (s \<noteq> JBool False))]))\<rparr>)]"
  using assms
  by (simp add: preview_def Let_def strict_eq_JBool split: fetch_result.splits option.splits)

lemma refine_calls:
  assumes "get_prop reqBody ''preview_task_id'' = Inr p" and "truthy p"
    and "get_prop reqBody ''enable_pbr'' = Inr e"
  shows "fst (refine env reqBody) =
           [Fetch (JStr ''https://api.meshy.ai/openapi/v2/text-to-3d'')
              (Some \<lparr>method = ''POST'',
                     headers = [(''Content-Type'', ''application/json''),
                                (''Authorization'', authorization env)],
                     body = Some (JSON_stringify env
                       (JObj [(''mode'', JStr ''refine''),
                              (''preview_task_id'', p),
                              (''enable_pbr'', JBool (e = JBool True))]))\<rparr>)]"
  using assms
  by (simp add: refine_def Let_def strict_eq_JBool split: fetch_result.splits option.splits)

lemma refine_no_calls:
  assumes "get_prop reqBody ''preview_task_id'' = Inr p" and "\<not> truthy p"
  shows "fst (refine env reqBody) = []"
proof -
  from assms(1) obtain e where "get_prop reqBody ''enable_pbr'' = Inr e"
    using get_prop_total by blast
  with assms show ?thesis by (simp add: refine_def)
qed

lemma no_read_no_calls:
  assumes "get_prop reqBody k = Inl x"
  shows "fst (preview env reqBody) = []" and "fst (refine env reqBody) = []"
  using get_prop_throws [OF assms] by (simp_all add: preview_def refine_def)

section \<open>Relaying upstream errors\<close>

text \<open>
  C1, as stated: in every operation, whenever an upstream call is answered with a
  non-success status, the caller gets that status and that body text.
  \<^verbatim>\<open>/api/download/:taskId\<close> makes two upstream calls, and it does not relay the answer
  to the second: the task is \<^verbatim>\<open>SUCCEEDED\<close> with a GLB URL, the fetch of that URL is
  answered with 403 and the text \<^verbatim>\<open>Forbidden\<close>, and the caller gets 500 with the message
  \<^verbatim>\<open>Failed to download GLB file.\<close>.
\<close>

theorem binary_fetch_error_counterexample:
  "download (example_env (\<lambda>c. case c of
       Fetch u None \<Rightarrow> Resolves \<lparr>status = 403, content = ''Forbidden''\<rparr>
     | Fetch u (Some i) \<Rightarrow> Resolves \<lparr>status = 200,
         content = ''{\"status\":\"SUCCEEDED\",\"model_urls\":{\"glb\":\"https://assets.meshy.ai/m.glb\"}}''\<rparr>)) ''t1''
     = ([Fetch (JStr ''https://api.meshy.ai/openapi/v2/text-to-3d/t1'')
           (Some \<lparr>method = ''GET'', headers = [(''Authorization'', ''Bearer secret'')],
                  body = None\<rparr>),
         Fetch (JStr ''https://assets.meshy.ai/m.glb'') None],
        (\<lparr>statusCode = 500, header_fields = []\<rparr>,
         Json (JObj [(''error'', JStr ''Failed to download GLB file.'')])))
   \<and> fetch (example_env (\<lambda>c. case c of
       Fetch u None \<Rightarrow> Resolves \<lparr>status = 403, content = ''Forbidden''\<rparr>
     | Fetch u (Some i) \<Rightarrow> Resolves \<lparr>status = 200,
         content = ''{\"status\":\"SUCCEEDED\",\"model_urls\":{\"glb\":\"https://assets.meshy.ai/m.glb\"}}''\<rparr>))
       (Fetch (JStr ''https://assets.meshy.ai/m.glb'') None)
     = Resolves \<lparr>status = 403, content = ''Forbidden''\<rparr>
   \<and> \<not> ok \<lparr>status = 403, content = ''Forbidden''\<rparr>
   \<and> (\<lparr>statusCode = 500, header_fields = []\<rparr>,
        Json (JObj [(''error'', JStr ''Failed to download GLB file.'')]))
     \<noteq> (\<lparr>statusCode = 403, header_fields = []\<rparr>, Json (JObj [(''error'', JStr ''Forbidden'')]))"
  by (simp add: download_def Let_def ok_def get_prop_opt_def res_defs fragment_defs)

text \<open>
  C1, amended. In each of the four handlers, when the call to the upstream task API (the
  create-task or read-task call, which is the first call the handler makes) is answered
  with a status outside 200..299, the handler makes no further call and responds with
  that same status and with the object \<^verbatim>\<open>{ error: text }\<close> whose \<^verbatim>\<open>error\<close> member is
  the upstream body text, unchanged. When it is the second call of
  \<^verbatim>\<open>/api/download/:taskId\<close>, the fetch of the GLB file, that is answered with such a
  status, the response is 500 with the message \<^verbatim>\<open>Failed to download GLB file.\<close>
  instead.
\<close>

theorem upstream_error_relayed:
  assumes "\<not> (200 \<le> status r \<and> status r < 300)"
  shows "(fst (preview env reqBody) = c # cs \<and> fetch env c = Resolves r \<longrightarrow>
            preview env reqBody =
              ([c], (\<lparr>statusCode = status r, header_fields = []\<rparr>,
                     Json (JObj [(''error'', JStr (content r))])))
          \<and> (\<exists>v. c = Fetch (JStr ''https://api.meshy.ai/openapi/v2/text-to-3d'')
                        (Some \<lparr>method = ''POST'',
                               headers = [(''Content-Type'', ''application/json''),
                                          (''Authorization'', authorization env)],
                               body = Some (JSON_stringify env v)\<rparr>)))
       \<and> (fst (refine env reqBody) = c # cs \<and> fetch env c = Resolves r \<longrightarrow>
            refine env reqBody =
              ([c], (\<lparr>statusCode = status r, header_fields = []\<rparr>,
                     Json (JObj [(''error'', JStr (content r))])))
          \<and> (\<exists>v. c = Fetch (JStr ''https://api.meshy.ai/openapi/v2/text-to-3d'')
                        (Some \<lparr>method = ''POST'',
                               headers = [(''Content-Type'', ''application/json''),
                                          (''Authorization'', authorization env)],
                               body = Some (JSON_stringify env v)\<rparr>)))
       \<and> (fetch env (Fetch (JStr (''https://api.meshy.ai/openapi/v2/text-to-3d/'' @ taskId))
                        (Some \<lparr>method = ''GET'',
                               headers = [(''Authorization'', authorization env)],
                               body = None\<rparr>)) = Resolves r \<longrightarrow>
            task env taskId =
              ([Fetch (JStr (''https://api.meshy.ai/openapi/v2/text-to-3d/'' @ taskId))
                  (Some \<lparr>method = ''GET'',
                         headers = [(''Authorization'', authorization env)],
                         body = None\<rparr>)],
               (\<lparr>statusCode = status r, header_fields = []\<rparr>,
                Json (JObj [(''error'', JStr (content r))])))
          \<and> download env taskId =
              ([Fetch (JStr (''https://api.meshy.ai/openapi/v2/text-to-3d/'' @ taskId))
                  (Some \<lparr>method = ''GET'',
                         headers = [(''Authorization'', authorization env)],
                         body = None\<rparr>)],
               (\<lparr>statusCode = status r, header_fields = []\<rparr>,
                Json (JObj [(''error'', JStr (content r))]))))
       \<and> (fetch env (Fetch (JStr (''https://api.meshy.ai/openapi/v2/text-to-3d/'' @ taskId))
                        (Some \<lparr>method = ''GET'',
                               headers = [(''Authorization'', authorization env)],
                               body = None\<rparr>)) = Resolves r1
          \<and> 200 \<le> status r1 \<and> status r1 < 300 \<and> JSON_parse env (content r1) = Some taskData
          \<and> get_prop taskData ''status'' = Inr (JStr ''SUCCEEDED'')
          \<and> get_prop taskData ''model_urls'' = Inr model_urls
          \<and> get_prop_opt model_urls ''glb'' = Inr glbUrl \<and> truthy glbUrl
          \<and> fetch env (Fetch glbUrl None) = Resolves r \<longrightarrow>
            download env taskId =
              ([Fetch (JStr (''https://api.meshy.ai/openapi/v2/text-to-3d/'' @ taskId))
                  (Some \<lparr>method = ''GET'',
                         headers = [(''Authorization'', authorization env)],
                         body = None\<rparr>),
                Fetch glbUrl None],
               (\<lparr>statusCode = 500, header_fields = []\<rparr>,
                Json (JObj [(''error'', JStr ''Failed to download GLB file.'')]))))"
proof -
  have P: "(fst (preview env reqBody) = c # cs \<and> fetch env c = Resolves r \<longrightarrow>
            preview env reqBody =
              ([c], (\<lparr>statusCode = status r, header_fields = []\<rparr>,
                     Json (JObj [(''error'', JStr (content r))])))
          \<and> (\<exists>v. c = Fetch (JStr ''https://api.meshy.ai/openapi/v2/text-to-3d'')
                        (Some \<lparr>method = ''POST'',
                               headers = [(''Content-Type'', ''application/json''),
                                          (''Authorization'', authorization env)],
                               body = Some (JSON_stringify env v)\<rparr>)))"
    using assms
    by (auto simp: preview_def Let_def ok_def res_defs
             split: sum.splits fetch_result.splits if_splits option.splits)
  have Q: "(fst (refine env reqBody) = c # cs \<and> fetch env c = Resolves r \<longrightarrow>
            refine env reqBody =
              ([c], (\<lparr>statusCode = status r, header_fields = []\<rparr>,
                     Json (JObj [(''error'', JStr (content r))])))
          \<and> (\<exists>v. c = Fetch (JStr ''https://api.meshy.ai/openapi/v2/text-to-3d'')
                        (Some \<lparr>method = ''POST'',
                               headers = [(''Content-Type'', ''application/json''),
                                          (''Authorization'', authorization env)],
                               body = Some (JSON_stringify env v)\<rparr>)))"
    using assms
    by (auto simp: refine_def Let_def ok_def res_defs
             split: sum.splits fetch_result.splits if_splits option.splits)
  have T: "(fetch env (Fetch (JStr (''https://api.meshy.ai/openapi/v2/text-to-3d/'' @ taskId))
                        (Some \<lparr>method = ''GET'',
                               headers = [(''Authorization'', authorization env)],
                               body = None\<rparr>)) = Resolves r \<longrightarrow>
            task env taskId =
              ([Fetch (JStr (''https://api.meshy.ai/openapi/v2/text-to-3d/'' @ taskId))
                  (Some \<lparr>method = ''GET'',
                         headers = [(''Authorization'', authorization env)],
                         body = None\<rparr>)],
               (\<lparr>statusCode = status r, header_fields = []\<rparr>,
                Json (JObj [(''error'', JStr (content r))])))
          \<and> download env taskId =
              ([Fetch (JStr (''https://api.meshy.ai/openapi/v2/text-to-3d/'' @ taskId))
                  (Some \<lparr>method = ''GET'',
                         headers = [(''Authorization'', authorization env)],
                         body = None\<rparr>)],
               (\<lparr>statusCode = status r, header_fields = []\<rparr>,
                Json (JObj [(''error'', JStr (content r))]))))"
    using assms
    by (simp add: task_def download_def Let_def ok_def res_defs)
  have D: "(fetch env (Fetch (JStr (''https://api.meshy.ai/openapi/v2/text-to-3d/'' @ taskId))
                        (Some \<lparr>method = ''GET'',
                               headers = [(''Authorization'', authorization env)],
                               body = None\<rparr>)) = Resolves r1
          \<and> 200 \<le> status r1 \<and> status r1 < 300 \<and> JSON_parse env (content r1) = Some taskData
          \<and> get_prop taskData ''status'' = Inr (JStr ''SUCCEEDED'')
          \<and> get_prop taskData ''model_urls'' = Inr model_urls
          \<and> get_prop_opt model_urls ''glb'' = Inr glbUrl \<and> truthy glbUrl
          \<and> fetch env (Fetch glbUrl None) = Resolves r \<longrightarrow>
            download env taskId =
              ([Fetch (JStr (''https://api.meshy.ai/openapi/v2/text-to-3d/'' @ taskId))
                  (Some \<lparr>method = ''GET'',
                         headers = [(''Authorization'', authorization env)],
                         body = None\<rparr>),
                Fetch glbUrl None],
               (\<lparr>statusCode = 500, header_fields = []\<rparr>,
                Json (JObj [(''error'', JStr ''Failed to download GLB file.'')]))))"
    using assms
    by (simp add: download_def Let_def ok_def res_defs)
  from P Q T D show ?thesis
    by (intro conjI) assumption+
qed

text \<open>An upstream that answers every call with 404 and the text \<^verbatim>\<open>Task not found\<close>,
  and one that has the task and answers the fetch of the file with 404.\<close>

theorem upstream_error_relayed_witness:
  "\<not> ok \<lparr>status = 404, content = ''Task not found''\<rparr>
   \<and> snd (preview (example_env (\<lambda>c. Resolves \<lparr>status = 404, content = ''Task not found''\<rparr>))
             (JObj [(''prompt'', JStr ''a red chair'')]))
       = (\<lparr>statusCode = 404, header_fields = []\<rparr>,
          Json (JObj [(''error'', JStr ''Task not found'')]))
   \<and> snd (refine (example_env (\<lambda>c. Resolves \<lparr>status = 404, content = ''Task not found''\<rparr>))
             (JObj [(''preview_task_id'', JStr ''p1'')]))
       = (\<lparr>statusCode = 404, header_fields = []\<rparr>,
          Json (JObj [(''error'', JStr ''Task not found'')]))
   \<and> snd (task (example_env (\<lambda>c. Resolves \<lparr>status = 404, content = ''Task not found''\<rparr>)) ''t1'')
       = (\<lparr>statusCode = 404, header_fields = []\<rparr>,
          Json (JObj [(''error'', JStr ''Task not found'')]))
   \<and> snd (download (example_env (\<lambda>c. Resolves \<lparr>status = 404, content = ''Task not found''\<rparr>)) ''t1'')
       = (\<lparr>statusCode = 404, header_fields = []\<rparr>,
          Json (JObj [(''error'', JStr ''Task not found'')]))
   \<and> snd (download (example_env (\<lambda>c. case c of
           Fetch u None \<Rightarrow> Resolves \<lparr>status = 404, content = ''Task not found''\<rparr>
         | Fetch u (Some i) \<Rightarrow> Resolves \<lparr>status = 200,
             content = ''{\"status\":\"SUCCEEDED\",\"model_urls\":{\"glb\":\"https://assets.meshy.ai/m.glb\"}}''\<rparr>)) ''t1'')
       = (\<lparr>statusCode = 500, header_fields = []\<rparr>,
          Json (JObj [(''error'', JStr ''Failed to download GLB file.'')]))"
proof -
  let ?r = "\<lparr>status = 404, content = ''Task not found''\<rparr>"
  let ?env = "example_env (\<lambda>c. Resolves ?r)"
  let ?body = "''{\"status\":\"SUCCEEDED\",\"model_urls\":{\"glb\":\"https://assets.meshy.ai/m.glb\"}}''"
  let ?urls = "JObj [(''glb'', JStr ''https://assets.meshy.ai/m.glb'')]"
  let ?data = "JObj [(''status'', JStr ''SUCCEEDED''), (''model_urls'', ?urls)]"
  let ?env2 = "example_env (\<lambda>c. case c of Fetch u None \<Rightarrow> Resolves ?r
                 | Fetch u (Some i) \<Rightarrow> Resolves \<lparr>status = 200, content = ?body\<rparr>)"
  have bad: "\<not> (200 \<le> status ?r \<and> status ?r < 300)"
    by simp
  have answer: "fetch ?env c = Resolves ?r" for c
    by (simp add: example_env_def)
  obtain c1 where p: "fst (preview ?env (JObj [(''prompt'', JStr ''a red chair'')])) = c1 # []"
    by (simp add: preview_calls)
  obtain c2 where q: "fst (refine ?env (JObj [(''preview_task_id'', JStr ''p1'')])) = c2 # []"
    by (simp add: refine_calls)
  note rel = upstream_error_relayed [OF bad]
  from rel [of ?env "JObj [(''prompt'', JStr ''a red chair'')]" c1 "[]"] p answer
  have 1: "snd (preview ?env (JObj [(''prompt'', JStr ''a red chair'')]))
        = (\<lparr>statusCode = 404, header_fields = []\<rparr>,
           Json (JObj [(''error'', JStr ''Task not found'')]))"
    by simp
  from rel [of ?env "JObj [(''preview_task_id'', JStr ''p1'')]" c2 "[]"] q answer
  have 2: "snd (refine ?env (JObj [(''preview_task_id'', JStr ''p1'')]))
        = (\<lparr>statusCode = 404, header_fields = []\<rparr>,
           Json (JObj [(''error'', JStr ''Task not found'')]))"
    by simp
  from rel [of ?env _ _ _ "''t1''"] answer
  have 3: "snd (task ?env ''t1'')
        = (\<lparr>statusCode = 404, header_fields = []\<rparr>,
           Json (JObj [(''error'', JStr ''Task not found'')]))"
    and 4: "snd (download ?env ''t1'')
        = (\<lparr>statusCode = 404, header_fields = []\<rparr>,
           Json (JObj [(''error'', JStr ''Task not found'')]))"
    by simp_all
  have parse: "JSON_parse ?env2 ?body = Some ?data"
    by (simp add: fragment_defs)
  have first: "fetch ?env2 (Fetch (JStr (''https://api.meshy.ai/openapi/v2/text-to-3d/'' @ ''t1''))
      (Some \<lparr>method = ''GET'', headers = [(''Authorization'', authorization ?env2)], body = None\<rparr>))
      = Resolves \<lparr>status = 200, content = ?body\<rparr>"
    by (simp add: example_env_def)
  have second: "fetch ?env2 (Fetch (JStr ''https://assets.meshy.ai/m.glb'') None) = Resolves ?r"
    by (simp add: example_env_def)
  have glb: "get_prop_opt ?urls ''glb'' = Inr (JStr ''https://assets.meshy.ai/m.glb'')"
    by (simp add: get_prop_opt_def)
  from rel [of ?env2 _ _ _ "''t1''" "\<lparr>status = 200, content = ?body\<rparr>" ?data ?urls
      "JStr ''https://assets.meshy.ai/m.glb''"] parse first second glb
  have 5: "snd (download ?env2 ''t1'')
        = (\<lparr>statusCode = 500, header_fields = []\<rparr>,
           Json (JObj [(''error'', JStr ''Failed to download GLB file.'')]))"
    by (simp add: ok_def)
  from 1 2 3 4 5 show ?thesis by (simp add: ok_def)
qed

section \<open>Reading a task\<close>

text \<open>
  C2, as stated: when the upstream read call succeeds, the bytes sent to the caller are
  the bytes of the upstream body. The handler parses the body and \<^verbatim>\<open>res.json\<close> writes
  the value again, so this fails as soon as the upstream body has a space that
  \<^verbatim>\<open>JSON.stringify\<close> does not write: the upstream answers 200 with
  \<^verbatim>\<open>{"status": "PENDING"}\<close>, which \<^verbatim>\<open>JSON.parse\<close> reads as the object with the one member
  \<^verbatim>\<open>status\<close>, and the caller receives what \<^verbatim>\<open>JSON.stringify\<close> writes for that object,
  \<^verbatim>\<open>{"status":"PENDING"}\<close>.
\<close>

theorem task_bytes_counterexample:
  "fetch (example_env (\<lambda>c. Resolves \<lparr>status = 200, content = ''{\"status\": \"PENDING\"}''\<rparr>))
         (Fetch (JStr ''https://api.meshy.ai/openapi/v2/text-to-3d/t1'')
            (Some \<lparr>method = ''GET'', headers = [(''Authorization'', ''Bearer secret'')],
                   body = None\<rparr>))
     = Resolves \<lparr>status = 200, content = ''{\"status\": \"PENDING\"}''\<rparr>
   \<and> ok \<lparr>status = 200, content = ''{\"status\": \"PENDING\"}''\<rparr>
   \<and> task (example_env (\<lambda>c. Resolves \<lparr>status = 200, content = ''{\"status\": \"PENDING\"}''\<rparr>)) ''t1''
     = ([Fetch (JStr ''https://api.meshy.ai/openapi/v2/text-to-3d/t1'')
           (Some \<lparr>method = ''GET'', headers = [(''Authorization'', ''Bearer secret'')],
                  body = None\<rparr>)],
        (\<lparr>statusCode = 200, header_fields = []\<rparr>, Json (JObj [(''status'', JStr ''PENDING'')])))
   \<and> wire (example_env (\<lambda>c. Resolves \<lparr>status = 200, content = ''{\"status\": \"PENDING\"}''\<rparr>))
        (Json (JObj [(''status'', JStr ''PENDING'')]))
     = ''{\"status\":\"PENDING\"}''
   \<and> ''{\"status\":\"PENDING\"}'' \<noteq> ''{\"status\": \"PENDING\"}''"
  by (simp add: task_def ok_def Let_def res_defs fragment_defs)

text \<open>
  C2, amended: when the upstream read call succeeds and \<^verbatim>\<open>response.json()\<close> gives the
  value \<open>v\<close> for its body, the handler makes that one call and responds 200 with
  \<^verbatim>\<open>res.json(v)\<close>, for every \<open>v\<close>: no member of \<open>v\<close> is read, and the bytes sent are
  those of \<^verbatim>\<open>JSON.stringify(v)\<close>, whatever the bytes of the upstream body were.
\<close>

theorem task_relays_value:
  assumes "fetch env (Fetch (JStr (''https://api.meshy.ai/openapi/v2/text-to-3d/'' @ taskId))
                        (Some \<lparr>method = ''GET'',
                               headers = [(''Authorization'', authorization env)],
                               body = None\<rparr>)) = Resolves r"
    and "200 \<le> status r \<and> status r < 300" and "JSON_parse env (content r) = Some v"
  shows "task env taskId =
           ([Fetch (JStr (''https://api.meshy.ai/openapi/v2/text-to-3d/'' @ taskId))
               (Some \<lparr>method = ''GET'',
                      headers = [(''Authorization'', authorization env)],
                      body = None\<rparr>)],
            (\<lparr>statusCode = 200, header_fields = []\<rparr>, Json v))
       \<and> wire env (snd (snd (task env taskId))) = JSON_stringify env v"
  using assms by (simp add: task_def Let_def ok_def res_defs)

text \<open>The upstream body \<^verbatim>\<open>{"status": "PENDING", "progress": 40}\<close>.\<close>

theorem task_relays_value_witness:
  "task (example_env (\<lambda>c. Resolves \<lparr>status = 200, content = ''{\"status\": \"PENDING\", \"progress\": 40}''\<rparr>)) ''t1''
     = ([Fetch (JStr ''https://api.meshy.ai/openapi/v2/text-to-3d/t1'')
           (Some \<lparr>method = ''GET'', headers = [(''Authorization'', ''Bearer secret'')],
                  body = None\<rparr>)],
        (\<lparr>statusCode = 200, header_fields = []\<rparr>,
         Json (JObj [(''status'', JStr ''PENDING''), (''progress'', JNum (Finite 40))])))
   \<and> wire (example_env (\<lambda>c. Resolves \<lparr>status = 200, content = ''{\"status\": \"PENDING\", \"progress\": 40}''\<rparr>))
        (snd (snd (task (example_env (\<lambda>c. Resolves \<lparr>status = 200, content = ''{\"status\": \"PENDING\", \"progress\": 40}''\<rparr>)) ''t1'')))
     = ''{\"status\":\"PENDING\",\"progress\":40}''"
proof -
  let ?r = "\<lparr>status = 200, content = ''{\"status\": \"PENDING\", \"progress\": 40}''\<rparr>"
  let ?env = "example_env (\<lambda>c. Resolves ?r)"
  let ?v = "JObj [(''status'', JStr ''PENDING''), (''progress'', JNum (Finite 40))]"
  have "fetch ?env (Fetch (JStr (''https://api.meshy.ai/openapi/v2/text-to-3d/'' @ ''t1''))
                        (Some \<lparr>method = ''GET'',
                               headers = [(''Authorization'', authorization ?env)],
                               body = None\<rparr>)) = Resolves ?r"
    by (simp add: example_env_def)
  moreover have "200 \<le> status ?r \<and> status ?r < 300"
    by simp
  moreover have "JSON_parse ?env (content ?r) = Some ?v"
    by (simp add: fragment_defs)
  ultimately have th: "task ?env ''t1'' =
           ([Fetch (JStr (''https://api.meshy.ai/openapi/v2/text-to-3d/'' @ ''t1''))
               (Some \<lparr>method = ''GET'',
                      headers = [(''Authorization'', authorization ?env)],
                      body = None\<rparr>)],
            (\<lparr>statusCode = 200, header_fields = []\<rparr>, Json ?v))
       \<and> wire ?env (snd (snd (task ?env ''t1''))) = JSON_stringify ?env ?v"
    by (rule task_relays_value)
  have "JSON_stringify ?env ?v = ''{\"status\":\"PENDING\",\"progress\":40}''"
    by (simp add: fragment_defs)
  moreover have "authorization ?env = ''Bearer secret''"
    by (simp add: fragment_defs)
  ultimately show ?thesis using th by simp
qed

section \<open>Downloading a model\<close>

text \<open>
  C3. When the status fetch of \<^verbatim>\<open>/api/download/:taskId\<close> succeeds with a task whose
  \<^verbatim>\<open>status\<close> is not the string \<^verbatim>\<open>SUCCEEDED\<close> (any other value, or no such member), the
  handler responds 400 with the message \<^verbatim>\<open>Task is not complete or has failed.\<close>, and the
  status fetch is the only call it makes.
\<close>

theorem download_not_succeeded:
  assumes "fetch env (Fetch (JStr (''https://api.meshy.ai/openapi/v2/text-to-3d/'' @ taskId))
                        (Some \<lparr>method = ''GET'',
                               headers = [(''Authorization'', authorization env)],
                               body = None\<rparr>)) = Resolves r"
    and "200 \<le> status r \<and> status r < 300" and "JSON_parse env (content r) = Some taskData"
    and "get_prop taskData ''status'' = Inr st" and "st \<noteq> JStr ''SUCCEEDED''"
  shows "download env taskId =
           ([Fetch (JStr (''https://api.meshy.ai/openapi/v2/text-to-3d/'' @ taskId))
               (Some \<lparr>method = ''GET'',
                      headers = [(''Authorization'', authorization env)],
                      body = None\<rparr>)],
            (\<lparr>statusCode = 400, header_fields = []\<rparr>,
             Json (JObj [(''error'', JStr ''Task is not complete or has failed.'')])))"
  using assms by (simp add: download_def Let_def ok_def res_defs strict_eq_JStr)

text \<open>The task \<^verbatim>\<open>{"status":"IN_PROGRESS"}\<close>.\<close>

theorem download_not_succeeded_witness:
  "download (example_env (\<lambda>c. Resolves \<lparr>status = 200, content = ''{\"status\":\"IN_PROGRESS\"}''\<rparr>)) ''t1''
     = ([Fetch (JStr ''https://api.meshy.ai/openapi/v2/text-to-3d/t1'')
           (Some \<lparr>method = ''GET'', headers = [(''Authorization'', ''Bearer secret'')],
                  body = None\<rparr>)],
        (\<lparr>statusCode = 400, header_fields = []\<rparr>,
         Json (JObj [(''error'', JStr ''Task is not complete or has failed.'')])))"
  using download_not_succeeded
    [of "example_env (\<lambda>c. Resolves \<lparr>status = 200, content = ''{\"status\":\"IN_PROGRESS\"}''\<rparr>)"
        "''t1''" "\<lparr>status = 200, content = ''{\"status\":\"IN_PROGRESS\"}''\<rparr>"
        "JObj [(''status'', JStr ''IN_PROGRESS'')]" "JStr ''IN_PROGRESS''"]
  by (simp add: ok_def fragment_defs)

text \<open>
  C7. When the status fetch succeeds with a task whose \<^verbatim>\<open>status\<close> is \<^verbatim>\<open>SUCCEEDED\<close> and
  \<^verbatim>\<open>taskData.model_urls?.glb\<close> is \<^verbatim>\<open>undefined\<close> (no \<^verbatim>\<open>model_urls\<close>, or no \<^verbatim>\<open>glb\<close> in
  it), the handler responds 404 with the message \<^verbatim>\<open>GLB URL not found.\<close>, and the status
  fetch is the only call it makes.
\<close>

theorem download_no_glb:
  assumes "fetch env (Fetch (JStr (''https://api.meshy.ai/openapi/v2/text-to-3d/'' @ taskId))
                        (Some \<lparr>method = ''GET'',
                               headers = [(''Authorization'', authorization env)],
                               body = None\<rparr>)) = Resolves r"
    and "200 \<le> status r \<and> status r < 300" and "JSON_parse env (content r) = Some taskData"
    and "get_prop taskData ''status'' = Inr (JStr ''SUCCEEDED'')"
    and "get_prop taskData ''model_urls'' = Inr model_urls"
    and "get_prop_opt model_urls ''glb'' = Inr JUndefined"
  shows "download env taskId =
           ([Fetch (JStr (''https://api.meshy.ai/openapi/v2/text-to-3d/'' @ taskId))
               (Some \<lparr>method = ''GET'',
                      headers = [(''Authorization'', authorization env)],
                      body = None\<rparr>)],
            (\<lparr>statusCode = 404, header_fields = []\<rparr>,
             Json (JObj [(''error'', JStr ''GLB URL not found.'')])))"
  using assms by (simp add: download_def Let_def ok_def res_defs)

text \<open>The task \<^verbatim>\<open>{"status":"SUCCEEDED","model_urls":{"fbx":"https://cdn/m.fbx"}}\<close>.\<close>

theorem download_no_glb_witness:
  "download (example_env (\<lambda>c. Resolves \<lparr>status = 200,
        content = ''{\"status\":\"SUCCEEDED\",\"model_urls\":{\"fbx\":\"https://cdn/m.fbx\"}}''\<rparr>)) ''t1''
     = ([Fetch (JStr ''https://api.meshy.ai/openapi/v2/text-to-3d/t1'')
           (Some \<lparr>method = ''GET'', headers = [(''Authorization'', ''Bearer secret'')],
                  body = None\<rparr>)],
        (\<lparr>statusCode = 404, header_fields = []\<rparr>,
         Json (JObj [(''error'', JStr ''GLB URL not found.'')])))"
  using download_no_glb
    [of "example_env (\<lambda>c. Resolves \<lparr>status = 200,
           content = ''{\"status\":\"SUCCEEDED\",\"model_urls\":{\"fbx\":\"https://cdn/m.fbx\"}}''\<rparr>)"
        "''t1''"
        "\<lparr>status = 200,
           content = ''{\"status\":\"SUCCEEDED\",\"model_urls\":{\"fbx\":\"https://cdn/m.fbx\"}}''\<rparr>"
        "JObj [(''status'', JStr ''SUCCEEDED''),
               (''model_urls'', JObj [(''fbx'', JStr ''https://cdn/m.fbx'')])]"
        "JObj [(''fbx'', JStr ''https://cdn/m.fbx'')]"]
  by (simp add: ok_def get_prop_opt_def fragment_defs)

text \<open>
  C8, as stated: for every task id, a finished task with a GLB URL whose file is fetched
  with success is answered with the two headers and the bytes of the file. The second
  header is built from the task id, and \<^verbatim>\<open>res.setHeader\<close> throws on a value with a
  line feed: for the request \<^verbatim>\<open>GET /api/download/a%0Ab\<close> the task id is \<^verbatim>\<open>a\<close>, line
  feed, \<^verbatim>\<open>b\<close>, the error is thrown inside the \<^verbatim>\<open>try\<close> block after \<^verbatim>\<open>Content-Type\<close> is
  set, and the \<^verbatim>\<open>catch\<close> block answers 500 with a JSON body and no
  \<^verbatim>\<open>Content-Disposition\<close>.
\<close>

theorem download_header_counterexample:
  "fetch (example_env (\<lambda>c. case c of
       Fetch u None \<Rightarrow> Resolves \<lparr>status = 200, content = [CHR ''g'', CHR ''l'', CHR ''T'', CHR ''F'', CHR 0x02, CHR 0x00]\<rparr>
     | Fetch u (Some i) \<Rightarrow> Resolves \<lparr>status = 200,
         content = ''{\"status\":\"SUCCEEDED\",\"model_urls\":{\"glb\":\"https://assets.meshy.ai/m.glb\"}}''\<rparr>))
       (Fetch (JStr ''https://assets.meshy.ai/m.glb'') None)
     = Resolves \<lparr>status = 200, content = [CHR ''g'', CHR ''l'', CHR ''T'', CHR ''F'', CHR 0x02, CHR 0x00]\<rparr>
   \<and> ok \<lparr>status = 200, content = [CHR ''g'', CHR ''l'', CHR ''T'', CHR ''F'', CHR 0x02, CHR 0x00]\<rparr>
   \<and> fst (download (example_env (\<lambda>c. case c of
       Fetch u None \<Rightarrow> Resolves \<lparr>status = 200, content = [CHR ''g'', CHR ''l'', CHR ''T'', CHR ''F'', CHR 0x02, CHR 0x00]\<rparr>
     | Fetch u (Some i) \<Rightarrow> Resolves \<lparr>status = 200,
         content = ''{\"status\":\"SUCCEEDED\",\"model_urls\":{\"glb\":\"https://assets.meshy.ai/m.glb\"}}''\<rparr>))
       [CHR ''a'', CHR 0x0A, CHR ''b''])
     = [Fetch (JStr (''https://api.meshy.ai/openapi/v2/text-to-3d/'' @ [CHR ''a'', CHR 0x0A, CHR ''b'']))
           (Some \<lparr>method = ''GET'', headers = [(''Authorization'', ''Bearer secret'')],
                  body = None\<rparr>),
        Fetch (JStr ''https://assets.meshy.ai/m.glb'') None]
   \<and> fst (snd (download (example_env (\<lambda>c. case c of
       Fetch u None \<Rightarrow> Resolves \<lparr>status = 200, content = [CHR ''g'', CHR ''l'', CHR ''T'', CHR ''F'', CHR 0x02, CHR 0x00]\<rparr>
     | Fetch u (Some i) \<Rightarrow> Resolves \<lparr>status = 200,
         content = ''{\"status\":\"SUCCEEDED\",\"model_urls\":{\"glb\":\"https://assets.meshy.ai/m.glb\"}}''\<rparr>))
       [CHR ''a'', CHR 0x0A, CHR ''b'']))
     = \<lparr>statusCode = 500, header_fields = [(''Content-Type'', ''model/gltf-binary'')]\<rparr>
   \<and> (\<exists>v. snd (snd (download (example_env (\<lambda>c. case c of
       Fetch u None \<Rightarrow> Resolves \<lparr>status = 200, content = [CHR ''g'', CHR ''l'', CHR ''T'', CHR ''F'', CHR 0x02, CHR 0x00]\<rparr>
     | Fetch u (Some i) \<Rightarrow> Resolves \<lparr>status = 200,
         content = ''{\"status\":\"SUCCEEDED\",\"model_urls\":{\"glb\":\"https://assets.meshy.ai/m.glb\"}}''\<rparr>))
       [CHR ''a'', CHR 0x0A, CHR ''b''])) = Json (JObj [(''error'', JStr v)]))"
  by (simp add: download_def Let_def ok_def get_prop_opt_def res_defs res_setHeader_def
        header_char_ok_def fragment_defs)

text \<open>
  C8, amended. When the status fetch succeeds with a task whose \<^verbatim>\<open>status\<close> is
  \<^verbatim>\<open>SUCCEEDED\<close> and whose \<^verbatim>\<open>model_urls.glb\<close> is truthy, the handler fetches that URL. If
  this second fetch is answered with a status outside 200..299, the response is 500
  with the message \<^verbatim>\<open>Failed to download GLB file.\<close>. Otherwise, for a task id all of
  whose characters a header value can hold (tab, U+0020..U+007E, U+0080..U+00FF), the
  response is 200 with the headers \<^verbatim>\<open>Content-Type: model/gltf-binary\<close> and
  \<^verbatim>\<open>Content-Disposition: attachment; filename="<taskId>.glb"\<close>, and its body is the
  bytes of the fetched body; for any other task id \<^verbatim>\<open>res.setHeader\<close> throws and the
  \<^verbatim>\<open>catch\<close> block answers 500 with that error's message, \<^verbatim>\<open>Content-Type\<close> being set
  already.
\<close>

theorem download_streams_glb:
  assumes "fetch env (Fetch (JStr (''https://api.meshy.ai/openapi/v2/text-to-3d/'' @ taskId))
                        (Some \<lparr>method = ''GET'',
                               headers = [(''Authorization'', authorization env)],
                               body = None\<rparr>)) = Resolves r"
    and "200 \<le> status r \<and> status r < 300" and "JSON_parse env (content r) = Some taskData"
    and "get_prop taskData ''status'' = Inr (JStr ''SUCCEEDED'')"
    and "get_prop taskData ''model_urls'' = Inr model_urls"
    and "get_prop_opt model_urls ''glb'' = Inr glbUrl" and "truthy glbUrl"
    and "fetch env (Fetch glbUrl None) = Resolves modelResponse"
  shows "download env taskId =
           ([Fetch (JStr (''https://api.meshy.ai/openapi/v2/text-to-3d/'' @ taskId))
               (Some \<lparr>method = ''GET'',
                      headers = [(''Authorization'', authorization env)],
                      body = None\<rparr>),
             Fetch glbUrl None],
            if \<not> (200 \<le> status modelResponse \<and> status modelResponse < 300)
            then (\<lparr>statusCode = 500, header_fields = []\<rparr>,
                  Json (JObj [(''error'', JStr ''Failed to download GLB file.'')]))
            else if list_all header_char_ok taskId
            then (\<lparr>statusCode = 200,
                   header_fields =
                     [(''Content-Type'', ''model/gltf-binary''),
                      (''Content-Disposition'',
                       ''attachment; filename=\"'' @ taskId @ ''.glb\"'')]\<rparr>,
                  Stream (content modelResponse))
            else (\<lparr>statusCode = 500,
                   header_fields = [(''Content-Type'', ''model/gltf-binary'')]\<rparr>,
                  Json (JObj [(''error'', JStr (engine_message env InvalidChar))])))"
  using assms
  by (simp add: download_def Let_def ok_def res_defs strict_eq_JStr
        setHeader_content_type setHeader_content_disposition del: append.simps)

text \<open>A finished task with a GLB URL; the store of model files answers once with the
  file and once with 403.\<close>

theorem download_streams_glb_witness:
  "download (example_env (\<lambda>c. case c of
           Fetch u None \<Rightarrow> Resolves \<lparr>status = 200, content = [CHR ''g'', CHR ''l'', CHR ''T'', CHR ''F'', CHR 0x02, CHR 0x00]\<rparr>
         | Fetch u (Some i) \<Rightarrow> Resolves \<lparr>status = 200,
             content = ''{\"status\":\"SUCCEEDED\",\"model_urls\":{\"glb\":\"https://assets.meshy.ai/m.glb\"}}''\<rparr>)) ''t1''
     = ([Fetch (JStr ''https://api.meshy.ai/openapi/v2/text-to-3d/t1'')
           (Some \<lparr>method = ''GET'', headers = [(''Authorization'', ''Bearer secret'')],
                  body = None\<rparr>),
         Fetch (JStr ''https://assets.meshy.ai/m.glb'') None],
        (\<lparr>statusCode = 200,
          header_fields = [(''Content-Type'', ''model/gltf-binary''),
                           (''Content-Disposition'', ''attachment; filename=\"t1.glb\"'')]\<rparr>,
         Stream [CHR ''g'', CHR ''l'', CHR ''T'', CHR ''F'', CHR 0x02, CHR 0x00]))
   \<and> snd (download (example_env (\<lambda>c. case c of
           Fetch u None \<Rightarrow> Resolves \<lparr>status = 403, content = ''Forbidden''\<rparr>
         | Fetch u (Some i) \<Rightarrow> Resolves \<lparr>status = 200,
             content = ''{\"status\":\"SUCCEEDED\",\"model_urls\":{\"glb\":\"https://assets.meshy.ai/m.glb\"}}''\<rparr>)) ''t1'')
     = (\<lparr>statusCode = 500, header_fields = []\<rparr>,
        Json (JObj [(''error'', JStr ''Failed to download GLB file.'')]))"
proof -
  let ?body = "''{\"status\":\"SUCCEEDED\",\"model_urls\":{\"glb\":\"https://assets.meshy.ai/m.glb\"}}''"
  let ?urls = "JObj [(''glb'', JStr ''https://assets.meshy.ai/m.glb'')]"
  let ?data = "JObj [(''status'', JStr ''SUCCEEDED''), (''model_urls'', ?urls)]"
  let ?glb = "\<lparr>status = 200, content = [CHR ''g'', CHR ''l'', CHR ''T'', CHR ''F'', CHR 0x02, CHR 0x00]\<rparr>"
  let ?no = "\<lparr>status = 403, content = ''Forbidden''\<rparr>"
  let ?env = "\<lambda>m. example_env (\<lambda>c. case c of Fetch u None \<Rightarrow> Resolves m
                 | Fetch u (Some i) \<Rightarrow> Resolves \<lparr>status = 200, content = ?body\<rparr>)"
  have parse: "JSON_parse (?env m) ?body = Some ?data" for m
    by (simp add: fragment_defs)
  have first: "fetch (?env m) (Fetch (JStr (''https://api.meshy.ai/openapi/v2/text-to-3d/'' @ ''t1''))
      (Some \<lparr>method = ''GET'', headers = [(''Authorization'', authorization (?env m))], body = None\<rparr>))
      = Resolves \<lparr>status = 200, content = ?body\<rparr>" for m
    by (simp add: example_env_def)
  have second: "fetch (?env m) (Fetch (JStr ''https://assets.meshy.ai/m.glb'') None) = Resolves m" for m
    by (simp add: example_env_def)
  have glb: "get_prop_opt ?urls ''glb'' = Inr (JStr ''https://assets.meshy.ai/m.glb'')"
    by (simp add: get_prop_opt_def)
  have auth: "authorization (?env m) = ''Bearer secret''" for m
    by (simp add: fragment_defs)
  have tid: "list_all header_char_ok ''t1''"
    by (simp add: header_char_ok_def)
  have a: "download (?env ?glb) ''t1''
      = ([Fetch (JStr ''https://api.meshy.ai/openapi/v2/text-to-3d/t1'')
            (Some \<lparr>method = ''GET'', headers = [(''Authorization'', ''Bearer secret'')],
                   body = None\<rparr>),
          Fetch (JStr ''https://assets.meshy.ai/m.glb'') None],
         (\<lparr>statusCode = 200,
           header_fields = [(''Content-Type'', ''model/gltf-binary''),
                            (''Content-Disposition'', ''attachment; filename=\"t1.glb\"'')]\<rparr>,
          Stream [CHR ''g'', CHR ''l'', CHR ''T'', CHR ''F'', CHR 0x02, CHR 0x00]))"
    using download_streams_glb [of "?env ?glb" "''t1''" "\<lparr>status = 200, content = ?body\<rparr>"
        ?data ?urls "JStr ''https://assets.meshy.ai/m.glb''" ?glb] parse first second glb tid
    by (simp add: ok_def auth)
  have b: "snd (download (?env ?no) ''t1'')
      = (\<lparr>statusCode = 500, header_fields = []\<rparr>,
         Json (JObj [(''error'', JStr ''Failed to download GLB file.'')]))"
    using download_streams_glb [of "?env ?no" "''t1''" "\<lparr>status = 200, content = ?body\<rparr>"
        ?data ?urls "JStr ''https://assets.meshy.ai/m.glb''" ?no] parse first second glb
    by (simp add: ok_def)
  from a b show ?thesis by simp
qed

section \<open>Creating a preview task\<close>

text \<open>
  C4. For a request body whose members can be read, \<^verbatim>\<open>/api/preview\<close> makes exactly one
  call, the POST to the create-task URL, and the body of that call is
  \<^verbatim>\<open>JSON.stringify\<close> of an object with the members \<^verbatim>\<open>mode\<close>, \<^verbatim>\<open>prompt\<close>, \<^verbatim>\<open>art_style\<close>,
  \<^verbatim>\<open>should_remesh\<close>, where \<^verbatim>\<open>mode\<close> is \<^verbatim>\<open>preview\<close>, \<^verbatim>\<open>prompt\<close> is \<^verbatim>\<open>3D object\<close> when the
  request has no prompt, \<^verbatim>\<open>art_style\<close> is \<^verbatim>\<open>realistic\<close> when the request has no art style,
  and \<^verbatim>\<open>should_remesh\<close> is false when the request's value is the boolean \<^verbatim>\<open>false\<close> and
  true for every other value, a missing one included.
\<close>

theorem preview_sends_defaults:
  assumes "get_prop reqBody ''prompt'' = Inr p" and "get_prop reqBody ''art_style'' = Inr a"
    and "get_prop reqBody ''should_remesh'' = Inr s"
  shows "\<exists>P A. fst (preview env reqBody) =
                  [Fetch (JStr ''https://api.meshy.ai/openapi/v2/text-to-3d'')
                     (Some \<lparr>method = ''POST'',
                            headers = [(''Content-Type'', ''application/json''),
                                       (''Authorization'', authorization env)],
                            body = Some (JSON_stringify env
                              (JObj [(''mode'', JStr ''preview''),
                                     (''prompt'', P),
                                     (''art_style'', A),
                                     (''should_remesh'', JBool (s \<noteq> JBool False))]))\<rparr>)]
               \<and> (p = JUndefined \<longrightarrow> P = JStr ''3D object'')
               \<and> (a = JUndefined \<longrightarrow> A = JStr ''realistic'')"
proof (intro exI conjI impI)
  show "fst (preview env reqBody) =
          [Fetch (JStr ''https://api.meshy.ai/openapi/v2/text-to-3d'')
             (Some \<lparr>method = ''POST'',
                    headers = [(''Content-Type'', ''application/json''),
                               (''Authorization'', authorization env)],
                    body = Some (JSON_stringify env
                      (JObj [(''mode'', JStr ''preview''),
                             (''prompt'', js_or p (JStr ''3D object'')),
                             (''art_style'', js_or a (JStr ''realistic'')),
                             (''should_remesh'', JBool (s \<noteq> JBool False))]))\<rparr>)]"
    using assms by (rule preview_calls)
next
  assume "p = JUndefined"
  then show "js_or p (JStr ''3D object'') = JStr ''3D object''"
    by (simp add: js_or_def)
next
  assume "a = JUndefined"
  then show "js_or a (JStr ''realistic'') = JStr ''realistic''"
    by (simp add: js_or_def)
qed

text \<open>The bodies \<^verbatim>\<open>{"should_remesh": "false"}\<close> (a string, so remeshing stays on) and
  \<^verbatim>\<open>{"should_remesh": false}\<close>, with the text that goes upstream.\<close>

theorem preview_sends_defaults_witness:
  "fst (preview (example_env (\<lambda>c. Resolves \<lparr>status = 200, content = ''{\"result\":\"task-1\"}''\<rparr>))
          (JObj [(''should_remesh'', JStr ''false'')]))
     = [Fetch (JStr ''https://api.meshy.ai/openapi/v2/text-to-3d'')
          (Some \<lparr>method = ''POST'',
                 headers = [(''Content-Type'', ''application/json''),
                            (''Authorization'', ''Bearer secret'')],
                 body = Some ''{\"mode\":\"preview\",\"prompt\":\"3D object\",\"art_style\":\"realistic\",\"should_remesh\":true}''\<rparr>)]
   \<and> fst (preview (example_env (\<lambda>c. Resolves \<lparr>status = 200, content = ''{\"result\":\"task-1\"}''\<rparr>))
          (JObj [(''should_remesh'', JBool False)]))
     = [Fetch (JStr ''https://api.meshy.ai/openapi/v2/text-to-3d'')
          (Some \<lparr>method = ''POST'',
                 headers = [(''Content-Type'', ''application/json''),
                            (''Authorization'', ''Bearer secret'')],
                 body = Some ''{\"mode\":\"preview\",\"prompt\":\"3D object\",\"art_style\":\"realistic\",\"should_remesh\":false}''\<rparr>)]"
proof -
  let ?env = "example_env (\<lambda>c. Resolves \<lparr>status = 200, content = ''{\"result\":\"task-1\"}''\<rparr>)"
  have auth: "authorization ?env = ''Bearer secret''"
    by (simp add: fragment_defs)
  have sent: "JSON_stringify ?env (JObj [(''mode'', JStr ''preview''), (''prompt'', JStr ''3D object''),
        (''art_style'', JStr ''realistic''), (''should_remesh'', JBool b)])
      = (if b then ''{\"mode\":\"preview\",\"prompt\":\"3D object\",\"art_style\":\"realistic\",\"should_remesh\":true}''
         else ''{\"mode\":\"preview\",\"prompt\":\"3D object\",\"art_style\":\"realistic\",\"should_remesh\":false}'')" for b
    by (simp add: fragment_defs)
  from preview_sends_defaults
      [of "JObj [(''should_remesh'', JStr ''false'')]" JUndefined JUndefined "JStr ''false''" ?env]
  have 1: "fst (preview ?env (JObj [(''should_remesh'', JStr ''false'')]))
     = [Fetch (JStr ''https://api.meshy.ai/openapi/v2/text-to-3d'')
          (Some \<lparr>method = ''POST'',
                 headers = [(''Content-Type'', ''application/json''),
                            (''Authorization'', ''Bearer secret'')],
                 body = Some ''{\"mode\":\"preview\",\"prompt\":\"3D object\",\"art_style\":\"realistic\",\"should_remesh\":true}''\<rparr>)]"
    using sent [of True] by (auto simp: auth)
  from preview_sends_defaults
      [of "JObj [(''should_remesh'', JBool False)]" JUndefined JUndefined "JBool False" ?env]
  have 2: "fst (preview ?env (JObj [(''should_remesh'', JBool False)]))
     = [Fetch (JStr ''https://api.meshy.ai/openapi/v2/text-to-3d'')
          (Some \<lparr>method = ''POST'',
                 headers = [(''Content-Type'', ''application/json''),
                            (''Authorization'', ''Bearer secret'')],
                 body = Some ''{\"mode\":\"preview\",\"prompt\":\"3D object\",\"art_style\":\"realistic\",\"should_remesh\":false}''\<rparr>)]"
    using sent [of False] by (auto simp: auth)
  from 1 2 show ?thesis by simp
qed

text \<open>
  C9. A prompt or an art style that is present with a falsy value (the empty string,
  \<^verbatim>\<open>null\<close>, \<^verbatim>\<open>false\<close>, zero) goes upstream as the default: the body of the one call is
  \<^verbatim>\<open>JSON.stringify\<close> of an object whose \<^verbatim>\<open>prompt\<close> is \<^verbatim>\<open>3D object\<close>, respectively whose
  \<^verbatim>\<open>art_style\<close> is \<^verbatim>\<open>realistic\<close>. Nothing the handler does tells such a request from one
  where the member is missing: calls and response are the same.
\<close>

theorem preview_falsy_as_absent:
  assumes "get_prop reqBody ''prompt'' = Inr p" and "get_prop reqBody ''art_style'' = Inr a"
    and "get_prop reqBody ''should_remesh'' = Inr s"
  shows "(\<exists>P A S. fst (preview env reqBody) =
                    [Fetch (JStr ''https://api.meshy.ai/openapi/v2/text-to-3d'')
                       (Some \<lparr>method = ''POST'',
                              headers = [(''Content-Type'', ''application/json''),
                                         (''Authorization'', authorization env)],
                              body = Some (JSON_stringify env
                                (JObj [(''mode'', JStr ''preview''), (''prompt'', P),
                                       (''art_style'', A), (''should_remesh'', S)]))\<rparr>)]
                 \<and> (\<not> truthy p \<longrightarrow> P = JStr ''3D object'')
                 \<and> (\<not> truthy a \<longrightarrow> A = JStr ''realistic''))
       \<and> (\<forall>b'. get_prop b' ''prompt'' = Inr (if truthy p then p else JUndefined)
               \<and> get_prop b' ''art_style'' = Inr (if truthy a then a else JUndefined)
               \<and> get_prop b' ''should_remesh'' = Inr s
               \<longrightarrow> preview env b' = preview env reqBody)"
proof (intro conjI allI impI)
  have "fst (preview env reqBody) =
          [Fetch (JStr ''https://api.meshy.ai/openapi/v2/text-to-3d'')
             (Some \<lparr>method = ''POST'',
                    headers = [(''Content-Type'', ''application/json''),
                               (''Authorization'', authorization env)],
                    body = Some (JSON_stringify env
                      (JObj [(''mode'', JStr ''preview''),
                             (''prompt'', js_or p (JStr ''3D object'')),
                             (''art_style'', js_or a (JStr ''realistic'')),
                             (''should_remesh'', JBool (s \<noteq> JBool False))]))\<rparr>)]"
    using assms by (rule preview_calls)
  moreover have "\<not> truthy p \<longrightarrow> js_or p (JStr ''3D object'') = JStr ''3D object''"
    and "\<not> truthy a \<longrightarrow> js_or a (JStr ''realistic'') = JStr ''realistic''"
    by (simp_all add: js_or_def)
  ultimately show "\<exists>P A S. fst (preview env reqBody) =
                    [Fetch (JStr ''https://api.meshy.ai/openapi/v2/text-to-3d'')
                       (Some \<lparr>method = ''POST'',
                              headers = [(''Content-Type'', ''application/json''),
                                         (''Authorization'', authorization env)],
                              body = Some (JSON_stringify env
                                (JObj [(''mode'', JStr ''preview''), (''prompt'', P),
                                       (''art_style'', A), (''should_remesh'', S)]))\<rparr>)]
                 \<and> (\<not> truthy p \<longrightarrow> P = JStr ''3D object'')
                 \<and> (\<not> truthy a \<longrightarrow> A = JStr ''realistic'')"
    by blast
next
  fix b'
  assume "get_prop b' ''prompt'' = Inr (if truthy p then p else JUndefined)
        \<and> get_prop b' ''art_style'' = Inr (if truthy a then a else JUndefined)
        \<and> get_prop b' ''should_remesh'' = Inr s"
  with assms show "preview env b' = preview env reqBody"
    by (simp add: preview_def js_or_def)
qed

text \<open>The body \<^verbatim>\<open>{"prompt": "", "art_style": null}\<close> against the empty body.\<close>

theorem preview_falsy_as_absent_witness:
  "fst (preview (example_env (\<lambda>c. Resolves \<lparr>status = 200, content = ''{\"result\":\"task-1\"}''\<rparr>))
          (JObj [(''prompt'', JStr []), (''art_style'', JNull)]))
     = [Fetch (JStr ''https://api.meshy.ai/openapi/v2/text-to-3d'')
          (Some \<lparr>method = ''POST'',
                 headers = [(''Content-Type'', ''application/json''),
                            (''Authorization'', ''Bearer secret'')],
                 body = Some ''{\"mode\":\"preview\",\"prompt\":\"3D object\",\"art_style\":\"realistic\",\"should_remesh\":true}''\<rparr>)]
   \<and> preview (example_env (\<lambda>c. Resolves \<lparr>status = 200, content = ''{\"result\":\"task-1\"}''\<rparr>))
        (JObj [])
     = preview (example_env (\<lambda>c. Resolves \<lparr>status = 200, content = ''{\"result\":\"task-1\"}''\<rparr>))
        (JObj [(''prompt'', JStr []), (''art_style'', JNull)])"
proof -
  let ?env = "example_env (\<lambda>c. Resolves \<lparr>status = 200, content = ''{\"result\":\"task-1\"}''\<rparr>)"
  let ?b = "JObj [(''prompt'', JStr []), (''art_style'', JNull)]"
  note th = preview_falsy_as_absent [of ?b "JStr []" JNull JUndefined ?env]
  have reads: "get_prop ?b ''prompt'' = Inr (JStr [])" "get_prop ?b ''art_style'' = Inr JNull"
    "get_prop ?b ''should_remesh'' = Inr JUndefined"
    by simp_all
  from th [OF reads] have same: "preview ?env (JObj []) = preview ?env ?b"
    by simp
  have "fst (preview ?env (JObj [])) =
          [Fetch (JStr ''https://api.meshy.ai/openapi/v2/text-to-3d'')
          (Some \<lparr>method = ''POST'',
                 headers = [(''Content-Type'', ''application/json''),
                            (''Authorization'', ''Bearer secret'')],
                 body = Some ''{\"mode\":\"preview\",\"prompt\":\"3D object\",\"art_style\":\"realistic\",\"should_remesh\":true}''\<rparr>)]"
    by (simp add: preview_calls js_or_def) (simp add: fragment_defs)
  with same show ?thesis by simp
qed

section \<open>Creating a refine task\<close>

text \<open>
  C5. For a request body whose \<^verbatim>\<open>preview_task_id\<close> is missing or is the empty string,
  \<^verbatim>\<open>/api/refine\<close> responds 400 with the message \<^verbatim>\<open>preview_task_id is required.\<close> and
  makes no call.
\<close>

theorem refine_requires_preview_task_id:
  assumes "get_prop reqBody ''preview_task_id'' = Inr p" and "p = JUndefined \<or> p = JStr []"
  shows "refine env reqBody =
           ([], (\<lparr>statusCode = 400, header_fields = []\<rparr>,
                 Json (JObj [(''error'', JStr ''preview_task_id is required.'')])))"
proof -
  from assms(1) obtain e where "get_prop reqBody ''enable_pbr'' = Inr e"
    using get_prop_total by blast
  moreover from assms(2) have "\<not> truthy p"
    by auto
  ultimately show ?thesis
    using assms(1) by (simp add: refine_def res_defs)
qed

text \<open>The bodies \<^verbatim>\<open>{"enable_pbr": true}\<close> and \<^verbatim>\<open>{"preview_task_id": ""}\<close>.\<close>

theorem refine_requires_preview_task_id_witness:
  "refine (example_env (\<lambda>c. Resolves \<lparr>status = 200, content = ''{\"result\":\"task-2\"}''\<rparr>))
     (JObj [(''enable_pbr'', JBool True)])
     = ([], (\<lparr>statusCode = 400, header_fields = []\<rparr>,
             Json (JObj [(''error'', JStr ''preview_task_id is required.'')])))
   \<and> refine (example_env (\<lambda>c. Resolves \<lparr>status = 200, content = ''{\"result\":\"task-2\"}''\<rparr>))
     (JObj [(''preview_task_id'', JStr [])])
     = ([], (\<lparr>statusCode = 400, header_fields = []\<rparr>,
             Json (JObj [(''error'', JStr ''preview_task_id is required.'')])))"
  using refine_requires_preview_task_id
      [of "JObj [(''enable_pbr'', JBool True)]" JUndefined
          "example_env (\<lambda>c. Resolves \<lparr>status = 200, content = ''{\"result\":\"task-2\"}''\<rparr>)"]
    refine_requires_preview_task_id
      [of "JObj [(''preview_task_id'', JStr [])]" "JStr []"
          "example_env (\<lambda>c. Resolves \<lparr>status = 200, content = ''{\"result\":\"task-2\"}''\<rparr>)"]
  by simp

text \<open>
  C6. For a request body with a truthy \<^verbatim>\<open>preview_task_id\<close> (a non-empty string, in
  particular), \<^verbatim>\<open>/api/refine\<close> makes exactly one call, the POST to the create-task URL,
  and the body of that call is \<^verbatim>\<open>JSON.stringify\<close> of an object with \<^verbatim>\<open>mode\<close> equal to
  \<^verbatim>\<open>refine\<close>, the given \<^verbatim>\<open>preview_task_id\<close>, and \<^verbatim>\<open>enable_pbr\<close> true exactly when the
  request's \<^verbatim>\<open>enable_pbr\<close> is the boolean \<^verbatim>\<open>true\<close>.
\<close>

theorem refine_enable_pbr:
  assumes "get_prop reqBody ''preview_task_id'' = Inr p" and "truthy p"
    and "get_prop reqBody ''enable_pbr'' = Inr e"
  shows "fst (refine env reqBody) =
           [Fetch (JStr ''https://api.meshy.ai/openapi/v2/text-to-3d'')
              (Some \<lparr>method = ''POST'',
                     headers = [(''Content-Type'', ''application/json''),
                                (''Authorization'', authorization env)],
                     body = Some (JSON_stringify env
                       (JObj [(''mode'', JStr ''refine''),
                              (''preview_task_id'', p),
                              (''enable_pbr'', JBool (e = JBool True))]))\<rparr>)]"
  using assms
  by (simp add: refine_def Let_def strict_eq_JBool split: fetch_result.splits option.splits)

text \<open>The bodies \<^verbatim>\<open>{"preview_task_id": "p1", "enable_pbr": "true"}\<close>,
  \<^verbatim>\<open>{"preview_task_id": "p1", "enable_pbr": true}\<close> and \<^verbatim>\<open>{"preview_task_id": "p1"}\<close>, with
  the text that goes upstream.\<close>

theorem refine_enable_pbr_witness:
  "fst (refine (example_env (\<lambda>c. Resolves \<lparr>status = 200, content = ''{\"result\":\"task-2\"}''\<rparr>))
          (JObj [(''preview_task_id'', JStr ''p1''), (''enable_pbr'', JStr ''true'')]))
     = [Fetch (JStr ''https://api.meshy.ai/openapi/v2/text-to-3d'')
          (Some \<lparr>method = ''POST'',
                 headers = [(''Content-Type'', ''application/json''),
                            (''Authorization'', ''Bearer secret'')],
                 body = Some ''{\"mode\":\"refine\",\"preview_task_id\":\"p1\",\"enable_pbr\":false}''\<rparr>)]
   \<and> fst (refine (example_env (\<lambda>c. Resolves \<lparr>status = 200, content = ''{\"result\":\"task-2\"}''\<rparr>))
          (JObj [(''preview_task_id'', JStr ''p1''), (''enable_pbr'', JBool True)]))
     = [Fetch (JStr ''https://api.meshy.ai/openapi/v2/text-to-3d'')
          (Some \<lparr>method = ''POST'',
                 headers = [(''Content-Type'', ''application/json''),
                            (''Authorization'', ''Bearer secret'')],
                 body = Some ''{\"mode\":\"refine\",\"preview_task_id\":\"p1\",\"enable_pbr\":true}''\<rparr>)]
   \<and> fst (refine (example_env (\<lambda>c. Resolves \<lparr>status = 200, content = ''{\"result\":\"task-2\"}''\<rparr>))
          (JObj [(''preview_task_id'', JStr ''p1'')]))
     = [Fetch (JStr ''https://api.meshy.ai/openapi/v2/text-to-3d'')
          (Some \<lparr>method = ''POST'',
                 headers = [(''Content-Type'', ''application/json''),
                            (''Authorization'', ''Bearer secret'')],
                 body = Some ''{\"mode\":\"refine\",\"preview_task_id\":\"p1\",\"enable_pbr\":false}''\<rparr>)]"
proof -
  let ?env = "example_env (\<lambda>c. Resolves \<lparr>status = 200, content = ''{\"result\":\"task-2\"}''\<rparr>)"
  have auth: "authorization ?env = ''Bearer secret''"
    by (simp add: fragment_defs)
  have sent: "JSON_stringify ?env (JObj [(''mode'', JStr ''refine''), (''preview_task_id'', JStr ''p1''),
        (''enable_pbr'', JBool b)])
      = (if b then ''{\"mode\":\"refine\",\"preview_task_id\":\"p1\",\"enable_pbr\":true}''
         else ''{\"mode\":\"refine\",\"preview_task_id\":\"p1\",\"enable_pbr\":false}'')" for b
    by (simp add: fragment_defs)
  from refine_enable_pbr
      [of "JObj [(''preview_task_id'', JStr ''p1''), (''enable_pbr'', JStr ''true'')]"
          "JStr ''p1''" "JStr ''true''" ?env]
    refine_enable_pbr
      [of "JObj [(''preview_task_id'', JStr ''p1''), (''enable_pbr'', JBool True)]"
          "JStr ''p1''" "JBool True" ?env]
    refine_enable_pbr
      [of "JObj [(''preview_task_id'', JStr ''p1'')]" "JStr ''p1''" JUndefined ?env]
  show ?thesis
    by (simp add: auth sent)
qed

section \<open>What reaches the upstream\<close>

text \<open>
  C10. Two request bodies that agree on \<^verbatim>\<open>prompt\<close>, \<^verbatim>\<open>art_style\<close> and
  \<^verbatim>\<open>should_remesh\<close> get the same calls and the same response from \<^verbatim>\<open>/api/preview\<close>, and
  two that agree on \<^verbatim>\<open>preview_task_id\<close> and \<^verbatim>\<open>enable_pbr\<close> get the same from
  \<^verbatim>\<open>/api/refine\<close>: no other member of the body has any effect. Every call of the two
  handlers is the create-task POST, and its body is \<^verbatim>\<open>JSON.stringify\<close> of an object with
  exactly the members \<^verbatim>\<open>mode\<close>, \<^verbatim>\<open>prompt\<close>, \<^verbatim>\<open>art_style\<close>, \<^verbatim>\<open>should_remesh\<close>, respectively
  \<^verbatim>\<open>mode\<close>, \<^verbatim>\<open>preview_task_id\<close>, \<^verbatim>\<open>enable_pbr\<close>, in this order.
\<close>

theorem only_named_fields_forwarded:
  "(get_prop b ''prompt'' = get_prop b' ''prompt''
      \<and> get_prop b ''art_style'' = get_prop b' ''art_style''
      \<and> get_prop b ''should_remesh'' = get_prop b' ''should_remesh''
      \<longrightarrow> preview env b = preview env b')
   \<and> (\<forall>c \<in> set (fst (preview env b)).
        \<exists>P A S. c = Fetch (JStr ''https://api.meshy.ai/openapi/v2/text-to-3d'')
                       (Some \<lparr>method = ''POST'',
                              headers = [(''Content-Type'', ''application/json''),
                                         (''Authorization'', authorization env)],
                              body = Some (JSON_stringify env
                                (JObj [(''mode'', JStr ''preview''), (''prompt'', P),
                                       (''art_style'', A), (''should_remesh'', JBool S)]))\<rparr>))
   \<and> (get_prop b ''preview_task_id'' = get_prop b' ''preview_task_id''
      \<and> get_prop b ''enable_pbr'' = get_prop b' ''enable_pbr''
      \<longrightarrow> refine env b = refine env b')
   \<and> (\<forall>c \<in> set (fst (refine env b)).
        \<exists>p E. c = Fetch (JStr ''https://api.meshy.ai/openapi/v2/text-to-3d'')
                     (Some \<lparr>method = ''POST'',
                            headers = [(''Content-Type'', ''application/json''),
                                       (''Authorization'', authorization env)],
                            body = Some (JSON_stringify env
                              (JObj [(''mode'', JStr ''refine''), (''preview_task_id'', p),
                                     (''enable_pbr'', JBool E)]))\<rparr>))"
proof (intro conjI impI)
  assume "get_prop b ''prompt'' = get_prop b' ''prompt''
      \<and> get_prop b ''art_style'' = get_prop b' ''art_style''
      \<and> get_prop b ''should_remesh'' = get_prop b' ''should_remesh''"
  then show "preview env b = preview env b'"
    by (simp add: preview_def cong: sum.case_cong)
next
  assume "get_prop b ''preview_task_id'' = get_prop b' ''preview_task_id''
      \<and> get_prop b ''enable_pbr'' = get_prop b' ''enable_pbr''"
  then show "refine env b = refine env b'"
    by (simp add: refine_def cong: sum.case_cong)
next
  show "\<forall>c \<in> set (fst (preview env b)).
        \<exists>P A S. c = Fetch (JStr ''https://api.meshy.ai/openapi/v2/text-to-3d'')
                       (Some \<lparr>method = ''POST'',
                              headers = [(''Content-Type'', ''application/json''),
                                         (''Authorization'', authorization env)],
                              body = Some (JSON_stringify env
                                (JObj [(''mode'', JStr ''preview''), (''prompt'', P),
                                       (''art_style'', A), (''should_remesh'', JBool S)]))\<rparr>)"
  proof (cases "get_prop b ''prompt''")
    case (Inl x)
    then show ?thesis by (simp add: no_read_no_calls)
  next
    case (Inr p)
    moreover from Inr obtain a where "get_prop b ''art_style'' = Inr a"
      using get_prop_total by blast
    moreover from Inr obtain s where "get_prop b ''should_remesh'' = Inr s"
      using get_prop_total by blast
    ultimately have "fst (preview env b) =
        [Fetch (JStr ''https://api.meshy.ai/openapi/v2/text-to-3d'')
           (Some \<lparr>method = ''POST'',
                  headers = [(''Content-Type'', ''application/json''),
                             (''Authorization'', authorization env)],
                  body = Some (JSON_stringify env
                    (JObj [(''mode'', JStr ''preview''),
                           (''prompt'', js_or p (JStr ''3D object'')),
                           (''art_style'', js_or a (JStr ''realistic'')),
                           (''should_remesh'', JBool (s \<noteq> JBool False))]))\<rparr>)]"
      by (rule preview_calls)
    then show ?thesis by auto
  qed
next
  show "\<forall>c \<in> set (fst (refine env b)).
        \<exists>p E. c = Fetch (JStr ''https://api.meshy.ai/openapi/v2/text-to-3d'')
                     (Some \<lparr>method = ''POST'',
                            headers = [(''Content-Type'', ''application/json''),
                                       (''Authorization'', authorization env)],
                            body = Some (JSON_stringify env
                              (JObj [(''mode'', JStr ''refine''), (''preview_task_id'', p),
                                     (''enable_pbr'', JBool E)]))\<rparr>)"
  proof (cases "get_prop b ''preview_task_id''")
    case (Inl x)
    then show ?thesis by (simp add: no_read_no_calls)
  next
    case (Inr p)
    from Inr obtain e where e: "get_prop b ''enable_pbr'' = Inr e"
      using get_prop_total by blast
    show ?thesis
    proof (cases "truthy p")
      case True
      with Inr e have "fst (refine env b) =
          [Fetch (JStr ''https://api.meshy.ai/openapi/v2/text-to-3d'')
             (Some \<lparr>method = ''POST'',
                    headers = [(''Content-Type'', ''application/json''),
                               (''Authorization'', authorization env)],
                    body = Some (JSON_stringify env
                      (JObj [(''mode'', JStr ''refine''), (''preview_task_id'', p),
                             (''enable_pbr'', JBool (e = JBool True))]))\<rparr>)]"
        by (simp add: refine_calls)
      then show ?thesis by auto
    next
      case False
      with Inr show ?thesis by (simp add: refine_no_calls)
    qed
  qed
qed

text \<open>The body \<^verbatim>\<open>{"prompt": "a cat"}\<close> against the same with the members \<^verbatim>\<open>mode\<close> and
  \<^verbatim>\<open>texture_prompt\<close> added, and \<^verbatim>\<open>{"preview_task_id": "p1"}\<close> against the same with
  \<^verbatim>\<open>mode\<close> and \<^verbatim>\<open>prompt\<close> added: the added members change nothing, and they are not
  in the text that goes upstream.\<close>

theorem only_named_fields_forwarded_witness:
  "preview (example_env (\<lambda>c. Resolves \<lparr>status = 200, content = ''{\"result\":\"task-1\"}''\<rparr>))
     (JObj [(''prompt'', JStr ''a cat''), (''mode'', JStr ''refine''),
            (''texture_prompt'', JStr ''fur'')])
     = preview (example_env (\<lambda>c. Resolves \<lparr>status = 200, content = ''{\"result\":\"task-1\"}''\<rparr>))
         (JObj [(''prompt'', JStr ''a cat'')])
   \<and> fst (preview (example_env (\<lambda>c. Resolves \<lparr>status = 200, content = ''{\"result\":\"task-1\"}''\<rparr>))
          (JObj [(''prompt'', JStr ''a cat''), (''mode'', JStr ''refine''),
                 (''texture_prompt'', JStr ''fur'')]))
     = [Fetch (JStr ''https://api.meshy.ai/openapi/v2/text-to-3d'')
          (Some \<lparr>method = ''POST'',
                 headers = [(''Content-Type'', ''application/json''),
                            (''Authorization'', ''Bearer secret'')],
                 body = Some ''{\"mode\":\"preview\",\"prompt\":\"a cat\",\"art_style\":\"realistic\",\"should_remesh\":true}''\<rparr>)]
   \<and> refine (example_env (\<lambda>c. Resolves \<lparr>status = 200, content = ''{\"result\":\"task-1\"}''\<rparr>))
       (JObj [(''preview_task_id'', JStr ''p1''), (''mode'', JStr ''preview''),
              (''prompt'', JStr ''a cat'')])
     = refine (example_env (\<lambda>c. Resolves \<lparr>status = 200, content = ''{\"result\":\"task-1\"}''\<rparr>))
         (JObj [(''preview_task_id'', JStr ''p1'')])
   \<and> fst (refine (example_env (\<lambda>c. Resolves \<lparr>status = 200, content = ''{\"result\":\"task-1\"}''\<rparr>))
          (JObj [(''preview_task_id'', JStr ''p1''), (''mode'', JStr ''preview''),
                 (''prompt'', JStr ''a cat'')]))
     = [Fetch (JStr ''https://api.meshy.ai/openapi/v2/text-to-3d'')
          (Some \<lparr>method = ''POST'',
                 headers = [(''Content-Type'', ''application/json''),
                            (''Authorization'', ''Bearer secret'')],
                 body = Some ''{\"mode\":\"refine\",\"preview_task_id\":\"p1\",\"enable_pbr\":false}''\<rparr>)]"
proof -
  let ?env = "example_env (\<lambda>c. Resolves \<lparr>status = 200, content = ''{\"result\":\"task-1\"}''\<rparr>)"
  let ?b1 = "JObj [(''prompt'', JStr ''a cat''), (''mode'', JStr ''refine''),
                   (''texture_prompt'', JStr ''fur'')]"
  let ?b2 = "JObj [(''preview_task_id'', JStr ''p1''), (''mode'', JStr ''preview''),
                   (''prompt'', JStr ''a cat'')]"
  note th1 = only_named_fields_forwarded [of ?b1 "JObj [(''prompt'', JStr ''a cat'')]" ?env]
  note th2 = only_named_fields_forwarded [of ?b2 "JObj [(''preview_task_id'', JStr ''p1'')]" ?env]
  from th1 have 1: "preview ?env ?b1 = preview ?env (JObj [(''prompt'', JStr ''a cat'')])"
    by simp
  from th2 have 2: "refine ?env ?b2 = refine ?env (JObj [(''preview_task_id'', JStr ''p1'')])"
    by simp
  have 3: "fst (preview ?env (JObj [(''prompt'', JStr ''a cat'')])) =
      [Fetch (JStr ''https://api.meshy.ai/openapi/v2/text-to-3d'')
          (Some \<lparr>method = ''POST'',
                 headers = [(''Content-Type'', ''application/json''),
                            (''Authorization'', ''Bearer secret'')],
                 body = Some ''{\"mode\":\"preview\",\"prompt\":\"a cat\",\"art_style\":\"realistic\",\"should_remesh\":true}''\<rparr>)]"
    by (simp add: preview_calls js_or_def) (simp add: fragment_defs)
  have 4: "fst (refine ?env (JObj [(''preview_task_id'', JStr ''p1'')])) =
      [Fetch (JStr ''https://api.meshy.ai/openapi/v2/text-to-3d'')
          (Some \<lparr>method = ''POST'',
                 headers = [(''Content-Type'', ''application/json''),
                            (''Authorization'', ''Bearer secret'')],
                 body = Some ''{\"mode\":\"refine\",\"preview_task_id\":\"p1\",\"enable_pbr\":false}''\<rparr>)]"
    by (simp add: refine_calls) (simp add: fragment_defs)
  from 1 2 3 4 show ?thesis by simp
qed

end
